theory Spec2Isabelle
  imports
    Complex_Main
    "HOL-Library.Log_Nat"
    "HOL-Library.Char_ord"
    "HOL-Library.List_Lexorder"
    "HOL-Library.Multiset"
begin

section \<open>JavaScript numbers\<close>

text \<open>
  Every number of \<^verbatim>\<open>main.js\<close> is an IEEE-754 binary64 value. A finite value is
  carried as the rational it denotes; the three non-finite values are constructors.
  The sign of zero is not represented: the program compares numbers, tests them for
  truthiness, adds them starting from \<^verbatim>\<open>0\<close>, takes \<^verbatim>\<open>Math.abs\<close> before it divides
  and formats with \<^verbatim>\<open>toFixed\<close>, and none of these tells \<^verbatim>\<open>-0\<close> from \<^verbatim>\<open>0\<close>.
\<close>

datatype jsnum = Fin rat | NaN | PosInf | NegInf

definition pow2 :: "int \<Rightarrow> rat" where
  "pow2 k = (if 0 \<le> k then 2 ^ nat k else 1 / 2 ^ nat (- k))"

text \<open>For \<open>a > 0\<close>, the exponent \<open>e\<close> with \<open>2\<^sup>e \<le> a < 2\<^sup>e\<^sup>+\<^sup>1\<close>.\<close>

definition floor_log2 :: "rat \<Rightarrow> int" where
  "floor_log2 a =
     (let (n, d) = quotient_of a;
          k = bitlen n - bitlen d
      in if pow2 k \<le> a then k else k - 1)"

definition round_half_even :: "rat \<Rightarrow> int" where
  "round_half_even x =
     (let r = \<lfloor>x\<rfloor>; f = x - of_int r
      in if f < 1 / 2 then r
         else if 1 / 2 < f then r + 1
         else if even r then r else r + 1)"

text \<open>
  Rounding of an exact result to binary64, round-to-nearest, ties to even: the
  significand \<open>m\<close> has at most 53 bits, the least exponent is \<open>-1074\<close> (subnormals),
  and a rounded value \<open>m \<sdot> 2\<^sup>e\<close> from \<open>2\<^sup>1\<^sup>0\<^sup>2\<^sup>4\<close> on (\<open>m\<close> and \<open>e\<close> have more than 1024
  bits together) is an infinity.
\<close>

definition to_double :: "rat \<Rightarrow> jsnum" where
  "to_double q =
     (if q = 0 then Fin 0
      else let a = \<bar>q\<bar>;
               e = max (floor_log2 a - 52) (- 1074);
               m = round_half_even (a / pow2 e);
               v = of_int m * pow2 e
           in if 1024 < bitlen m + e then (if q < 0 then NegInf else PosInf)
              else Fin (if q < 0 then - v else v))"

fun fneg :: "jsnum \<Rightarrow> jsnum" where
  "fneg (Fin a) = Fin (- a)"
| "fneg NaN = NaN"
| "fneg PosInf = NegInf"
| "fneg NegInf = PosInf"

text \<open>\<^verbatim>\<open>x + y\<close> on numbers.\<close>

fun fadd :: "jsnum \<Rightarrow> jsnum \<Rightarrow> jsnum" where
  "fadd NaN _ = NaN"
| "fadd _ NaN = NaN"
| "fadd PosInf NegInf = NaN"
| "fadd NegInf PosInf = NaN"
| "fadd PosInf _ = PosInf"
| "fadd _ PosInf = PosInf"
| "fadd NegInf _ = NegInf"
| "fadd _ NegInf = NegInf"
| "fadd (Fin a) (Fin b) = to_double (a + b)"

text \<open>\<^verbatim>\<open>x - y\<close> on numbers.\<close>

definition fsub :: "jsnum \<Rightarrow> jsnum \<Rightarrow> jsnum" where
  "fsub x y = fadd x (fneg y)"

text \<open>The sign of a number as \<open>-1\<close>, \<open>0\<close> or \<open>1\<close>; \<open>NaN\<close> has none.\<close>

fun fsgn :: "jsnum \<Rightarrow> int" where
  "fsgn (Fin a) = (if a < 0 then - 1 else if a = 0 then 0 else 1)"
| "fsgn NaN = 0"
| "fsgn PosInf = 1"
| "fsgn NegInf = - 1"

definition signed_inf :: "int \<Rightarrow> jsnum" where
  "signed_inf s = (if s < 0 then NegInf else PosInf)"

text \<open>\<^verbatim>\<open>x * y\<close> on numbers.\<close>

fun fmul :: "jsnum \<Rightarrow> jsnum \<Rightarrow> jsnum" where
  "fmul NaN _ = NaN"
| "fmul _ NaN = NaN"
| "fmul (Fin a) (Fin b) = to_double (a * b)"
| "fmul x y = (if fsgn x = 0 \<or> fsgn y = 0 then NaN else signed_inf (fsgn x * fsgn y))"

text \<open>
  \<^verbatim>\<open>x / y\<close> on numbers. A zero divisor is the positive zero: the two divisors of the
  program are \<^verbatim>\<open>Math.abs(entry - sl)\<close> and \<^verbatim>\<open>trades.length\<close>.
\<close>

fun fdiv :: "jsnum \<Rightarrow> jsnum \<Rightarrow> jsnum" where
  "fdiv NaN _ = NaN"
| "fdiv _ NaN = NaN"
| "fdiv (Fin a) (Fin b) =
     (if b = 0 then (if a = 0 then NaN else signed_inf (fsgn (Fin a)))
      else to_double (a / b))"
| "fdiv (Fin a) _ = Fin 0"
| "fdiv x (Fin b) = signed_inf (fsgn x * (if b < 0 then - 1 else 1))"
| "fdiv _ _ = NaN"

text \<open>\<^verbatim>\<open>Math.abs(x)\<close>.\<close>

fun fabs :: "jsnum \<Rightarrow> jsnum" where
  "fabs (Fin a) = Fin \<bar>a\<bar>"
| "fabs NaN = NaN"
| "fabs PosInf = PosInf"
| "fabs NegInf = PosInf"

text \<open>\<^verbatim>\<open>x > y\<close> and \<^verbatim>\<open>x >= y\<close>: false as soon as one side is \<open>NaN\<close>.\<close>

fun fgt :: "jsnum \<Rightarrow> jsnum \<Rightarrow> bool" where
  "fgt NaN _ = False"
| "fgt _ NaN = False"
| "fgt (Fin a) (Fin b) = (b < a)"
| "fgt PosInf y = (y \<noteq> PosInf)"
| "fgt x NegInf = (x \<noteq> NegInf)"
| "fgt _ _ = False"

fun fge :: "jsnum \<Rightarrow> jsnum \<Rightarrow> bool" where
  "fge NaN _ = False"
| "fge _ NaN = False"
| "fge x y = (x = y \<or> fgt x y)"

text \<open>ToBoolean on a number: \<open>0\<close> and \<open>NaN\<close> are falsy.\<close>

fun truthy :: "jsnum \<Rightarrow> bool" where
  "truthy (Fin a) = (a \<noteq> 0)"
| "truthy NaN = False"
| "truthy _ = True"

text \<open>A finite number: neither \<open>NaN\<close> nor an infinity.\<close>

fun is_fin :: "jsnum \<Rightarrow> bool" where
  "is_fin (Fin a) = True"
| "is_fin _ = False"

text \<open>An array length as a number (below \<open>2\<^sup>3\<^sup>2\<close>, hence exact).\<close>

definition num_of_nat :: "nat \<Rightarrow> jsnum" where
  "num_of_nat n = Fin (of_int (int n))"

section \<open>Number formatting and parsing\<close>

fun show_nat :: "nat \<Rightarrow> string" where
  "show_nat n =
     (if n < 10 then [char_of (48 + n)]
      else show_nat (n div 10) @ [char_of (48 + n mod 10)])"

text \<open>
  What the host's own functions return and the program only passes on:
  \<open>numberToString\<close> is Number::toString on a finite value from \<open>10\<^sup>2\<^sup>1\<close> on (exponent
  notation), \<open>toLocaleString\<close> is \<^verbatim>\<open>Number.prototype.toLocaleString\<close> in the user's
  locale.
\<close>

record host =
  numberToString :: "rat \<Rightarrow> string"
  toLocaleString :: "jsnum \<Rightarrow> string"

text \<open>
  \<^verbatim>\<open>x.toFixed(f)\<close>: the integer \<open>n\<close> nearest to \<open>x \<sdot> 10\<^sup>f\<close>, the larger one of two,
  written with \<open>f\<close> digits after the point.
\<close>

definition fixed_digits :: "nat \<Rightarrow> rat \<Rightarrow> string" where
  "fixed_digits f x =
     (let n = nat \<lfloor>x * 10 ^ f + 1 / 2\<rfloor>;
          m = show_nat n
      in if f = 0 then m
         else let m' = replicate (f + 1 - length m) (CHR ''0'') @ m;
                  k = length m'
              in take (k - f) m' @ ''.'' @ drop (k - f) m')"

fun toFixed :: "host \<Rightarrow> nat \<Rightarrow> jsnum \<Rightarrow> string" where
  "toFixed h f NaN = ''NaN''"
| "toFixed h f PosInf = ''Infinity''"
| "toFixed h f NegInf = ''-Infinity''"
| "toFixed h f (Fin q) =
     (let s = (if q < 0 then ''-'' else '''');
          x = \<bar>q\<bar>
      in if 10 ^ 21 \<le> x then s @ numberToString h x
         else s @ fixed_digits f x)"

definition is_digit :: "char \<Rightarrow> bool" where
  "is_digit c = (CHR ''0'' \<le> c \<and> c \<le> CHR ''9'')"

text \<open>
  Text is held as its UTF-8 bytes. The white space and line terminators of the language
  are the one-byte characters TAB, LF, VT, FF, CR and SP, the two bytes of U+00A0, and
  the three bytes of U+1680, U+2000 to U+200A, U+2028, U+2029, U+202F, U+205F, U+3000
  and U+FEFF.
\<close>

definition is_space1 :: "char \<Rightarrow> bool" where
  "is_space1 c = (c \<in> set [CHR 0x09, CHR 0x0A, CHR 0x0B, CHR 0x0C, CHR 0x0D, CHR 0x20])"

definition is_space2 :: "char \<Rightarrow> char \<Rightarrow> bool" where
  "is_space2 a b = (a = CHR 0xC2 \<and> b = CHR 0xA0)"

definition is_space3 :: "char \<Rightarrow> char \<Rightarrow> char \<Rightarrow> bool" where
  "is_space3 a b c =
     (a = CHR 0xE1 \<and> b = CHR 0x9A \<and> c = CHR 0x80 \<or>
      a = CHR 0xE2 \<and> b = CHR 0x80 \<and>
        (CHR 0x80 \<le> c \<and> c \<le> CHR 0x8A \<or> c = CHR 0xA8 \<or> c = CHR 0xA9 \<or> c = CHR 0xAF) \<or>
      a = CHR 0xE2 \<and> b = CHR 0x81 \<and> c = CHR 0x9F \<or>
      a = CHR 0xE3 \<and> b = CHR 0x80 \<and> c = CHR 0x80 \<or>
      a = CHR 0xEF \<and> b = CHR 0xBB \<and> c = CHR 0xBF)"

text \<open>TrimString at the start: the text without its leading white space.\<close>

fun trim_start :: "string \<Rightarrow> string" where
  "trim_start (a # b # c # r) =
     (if is_space1 a then trim_start (b # c # r)
      else if is_space2 a b then trim_start (c # r)
      else if is_space3 a b c then trim_start r
      else a # b # c # r)"
| "trim_start [a, b] =
     (if is_space1 a then trim_start [b]
      else if is_space2 a b then []
      else [a, b])"
| "trim_start [a] = (if is_space1 a then [] else [a])"
| "trim_start [] = []"

definition digits_value :: "string \<Rightarrow> int" where
  "digits_value ds = foldl (\<lambda>v c. 10 * v + (of_char c - 48)) 0 ds"

text \<open>
  An ExponentPart at the head of the text: \<^verbatim>\<open>e\<close> or \<^verbatim>\<open>E\<close>, an optional sign and at
  least one digit; anything else is no exponent and stays unread.
\<close>

definition exponent_part :: "string \<Rightarrow> int" where
  "exponent_part r =
     (case r of
        [] \<Rightarrow> 0
      | c # r1 \<Rightarrow>
          if c = CHR ''e'' \<or> c = CHR ''E'' then
            (case r1 of
               [] \<Rightarrow> 0
             | s # r2 \<Rightarrow>
                 if s = CHR ''+'' \<or> s = CHR ''-'' then
                   (let ds = takeWhile is_digit r2
                    in if ds = [] then 0
                       else if s = CHR ''-'' then - digits_value ds
                       else digits_value ds)
                 else
                   (let ds = takeWhile is_digit r1
                    in if ds = [] then 0 else digits_value ds))
          else 0)"

definition pow10 :: "int \<Rightarrow> rat" where
  "pow10 k = (if 0 \<le> k then 10 ^ nat k else 1 / 10 ^ nat (- k))"

text \<open>
  The longest prefix that is a StrUnsignedDecimalLiteral: \<^verbatim>\<open>Infinity\<close>, digits with
  an optional fraction and exponent, or a point followed by digits.
\<close>

definition unsigned_literal :: "string \<Rightarrow> jsnum" where
  "unsigned_literal t =
     (if take 8 t = ''Infinity'' then PosInf
      else let d1 = takeWhile is_digit t;
               r1 = dropWhile is_digit t
           in if r1 \<noteq> [] \<and> hd r1 = CHR ''.'' then
                (let d2 = takeWhile is_digit (tl r1);
                     r2 = dropWhile is_digit (tl r1)
                 in if d1 = [] \<and> d2 = [] then NaN
                    else to_double (of_int (digits_value (d1 @ d2))
                           * pow10 (exponent_part r2 - int (length d2))))
              else if d1 = [] then NaN
              else to_double (of_int (digits_value d1) * pow10 (exponent_part r1)))"

text \<open>
  \<^verbatim>\<open>parseFloat(text)\<close>: leading white space is dropped, then the longest prefix that
  is a StrDecimalLiteral is read and rounded to a number; with no such prefix the
  result is \<open>NaN\<close>.
\<close>

definition parseFloat :: "string \<Rightarrow> jsnum" where
  "parseFloat str =
     (let t = trim_start str
      in case t of
           [] \<Rightarrow> NaN
         | c # r \<Rightarrow>
             if c = CHR ''-'' then fneg (unsigned_literal r)
             else if c = CHR ''+'' then unsigned_literal r
             else unsigned_literal t)"

section \<open>The storage engine\<close>

text \<open>
  What a call can throw or an awaited promise can reject with: a \<^verbatim>\<open>TypeError\<close> of
  the language (a property read on \<^verbatim>\<open>undefined\<close>, a call of something that is not a
  function), an \<^verbatim>\<open>Error\<close> the program constructs with a message, and the error the
  storage engine rejects a statement with.
\<close>

datatype error = TypeError | Error string | StorageError string

text \<open>
  Modelled from the spec: the schema of the three tables, whose declarations are not in
  \<^verbatim>\<open>main.js\<close>. A row of \<^verbatim>\<open>profile\<close>, of \<^verbatim>\<open>accounts\<close> and of \<^verbatim>\<open>trades\<close>, column by
  column; \<open>id\<close> is the primary key of each table, and the engine assigns it in
  \<^verbatim>\<open>accounts\<close> and \<^verbatim>\<open>trades\<close>. A parameter is stored as it is passed: a number stays
  that number, and \<^verbatim>\<open>null\<close> is the absent value \<open>None\<close>.
\<close>

record profile_row =
  p_id :: nat
  p_name :: string
  p_email :: string
  p_experience :: string
  p_currency :: string
  p_timezone :: string

record account_row =
  a_id :: nat
  a_name :: string
  a_type :: string
  a_initial_balance :: jsnum
  a_current_balance :: jsnum
  a_broker :: string
  a_leverage :: string
  a_instruments :: string

record trade_row =
  t_id :: nat
  t_account_id :: nat
  t_symbol :: string
  t_type :: string
  t_entry_price :: jsnum
  t_exit_price :: "jsnum option"
  t_take_profit :: jsnum
  t_stop_loss :: jsnum
  t_lot_size :: jsnum
  t_volume :: jsnum
  t_profit :: jsnum
  t_commission :: jsnum
  t_rr_ratio :: string
  t_strategy :: string
  t_session :: string
  t_duration :: string
  t_date :: string

text \<open>
  Modelled from the spec: the storage engine behind \<^verbatim>\<open>db\<close>, which is not in
  \<^verbatim>\<open>main.js\<close>. A connection holds the three tables in row order. \<open>fault\<close> is the
  error with which the engine rejects every statement while it is set (connection
  lost, malformed statement); \<open>has_execute\<close> tells whether the handle has the method
  \<^verbatim>\<open>execute\<close>, which \<^verbatim>\<open>initDB\<close> and \<^verbatim>\<open>saveProfile\<close> test.
\<close>

record conn =
  has_execute :: bool
  fault :: "error option"
  profile_tbl :: "profile_row list"
  accounts_tbl :: "account_row list"
  trades_tbl :: "trade_row list"

text \<open>Modelled from the spec: the value \<^verbatim>\<open>db.execute\<close> resolves to.\<close>

record exec_result =
  rowsAffected :: nat
  lastInsertId :: nat

text \<open>Modelled from the spec: the key an auto-increment table gives its next row.\<close>

definition next_id :: "nat list \<Rightarrow> nat" where
  "next_id ids = Suc (fold max ids 0)"

text \<open>
  Modelled from the spec: \<^verbatim>\<open>ORDER BY k DESC\<close>. The order of rows with equal keys is
  not specified; here they come out in reverse row order.
\<close>

definition order_by_desc :: "('a \<Rightarrow> 'k::linorder) \<Rightarrow> 'a list \<Rightarrow> 'a list" where
  "order_by_desc k rows = rev (sort_key k rows)"

text \<open>Modelled from the spec: the engine on \<^verbatim>\<open>SELECT 1 as test\<close>.\<close>

definition select_one :: "conn \<Rightarrow> error + nat list" where
  "select_one c = (case fault c of Some e \<Rightarrow> Inl e | None \<Rightarrow> Inr [1])"

text \<open>
  Modelled from the spec: the engine on \<^verbatim>\<open>INSERT OR REPLACE INTO profile (id, name,
  email, experience, currency, timezone) VALUES (...)\<close>. A row with the same primary key
  is deleted, then the row is inserted.
\<close>

definition insert_or_replace_profile ::
  "profile_row \<Rightarrow> conn \<Rightarrow> error + exec_result \<times> conn" where
  "insert_or_replace_profile r c =
     (case fault c of
        Some e \<Rightarrow> Inl e
      | None \<Rightarrow>
          Inr (\<lparr>rowsAffected = 1, lastInsertId = p_id r\<rparr>,
               c\<lparr>profile_tbl := filter (\<lambda>x. p_id x \<noteq> p_id r) (profile_tbl c) @ [r]\<rparr>))"

text \<open>Modelled from the spec: the engine on \<^verbatim>\<open>SELECT * FROM profile WHERE id = k\<close>.\<close>

definition select_profile :: "nat \<Rightarrow> conn \<Rightarrow> error + profile_row list" where
  "select_profile k c =
     (case fault c of
        Some e \<Rightarrow> Inl e
      | None \<Rightarrow> Inr (filter (\<lambda>r. p_id r = k) (profile_tbl c)))"

text \<open>
  Modelled from the spec: the engine on \<^verbatim>\<open>INSERT INTO accounts (name, ...) VALUES
  (...)\<close>. The row is given as a function of the key the engine assigns.
\<close>

definition insert_account ::
  "(nat \<Rightarrow> account_row) \<Rightarrow> conn \<Rightarrow> error + exec_result \<times> conn" where
  "insert_account mk c =
     (case fault c of
        Some e \<Rightarrow> Inl e
      | None \<Rightarrow>
          (let i = next_id (map a_id (accounts_tbl c))
           in Inr (\<lparr>rowsAffected = 1, lastInsertId = i\<rparr>,
                   c\<lparr>accounts_tbl := accounts_tbl c @ [mk i]\<rparr>)))"

text \<open>Modelled from the spec: the engine on \<^verbatim>\<open>SELECT * FROM accounts ORDER BY id DESC\<close>.\<close>

definition select_accounts :: "conn \<Rightarrow> error + account_row list" where
  "select_accounts c =
     (case fault c of
        Some e \<Rightarrow> Inl e
      | None \<Rightarrow> Inr (order_by_desc a_id (accounts_tbl c)))"

text \<open>
  Modelled from the spec: the engine on \<^verbatim>\<open>INSERT INTO trades (account_id, ...) VALUES
  (...)\<close>.
\<close>

definition insert_trade ::
  "(nat \<Rightarrow> trade_row) \<Rightarrow> conn \<Rightarrow> error + exec_result \<times> conn" where
  "insert_trade mk c =
     (case fault c of
        Some e \<Rightarrow> Inl e
      | None \<Rightarrow>
          (let i = next_id (map t_id (trades_tbl c))
           in Inr (\<lparr>rowsAffected = 1, lastInsertId = i\<rparr>,
                   c\<lparr>trades_tbl := trades_tbl c @ [mk i]\<rparr>)))"

text \<open>
  Modelled from the spec: the engine on \<^verbatim>\<open>SELECT * FROM trades WHERE account_id = ?
  ORDER BY date DESC\<close>. \<^verbatim>\<open>date\<close> holds text, compared byte by byte.
\<close>

definition select_trades :: "nat \<Rightarrow> conn \<Rightarrow> error + trade_row list" where
  "select_trades accountId c =
     (case fault c of
        Some e \<Rightarrow> Inl e
      | None \<Rightarrow>
          Inr (order_by_desc t_date
                (filter (\<lambda>r. t_account_id r = accountId) (trades_tbl c))))"

section \<open>The program state\<close>

record profile =
  pf_name :: string
  pf_currency :: string

text \<open>An account as \<^verbatim>\<open>loadAccounts\<close> builds it from a row.\<close>

record account =
  acc_id :: nat
  acc_name :: string
  acc_type :: string
  acc_initialBalance :: jsnum
  acc_currentBalance :: jsnum
  acc_broker :: string
  acc_leverage :: string
  acc_instruments :: string

text \<open>The account object of the account form: it has no \<^verbatim>\<open>id\<close>.\<close>

record new_account =
  na_name :: string
  na_type :: string
  na_initialBalance :: jsnum
  na_currentBalance :: jsnum
  na_broker :: string
  na_leverage :: string
  na_instruments :: string

text \<open>A trade as \<^verbatim>\<open>loadTrades\<close> builds it from a row.\<close>

record trade =
  tr_id :: nat
  tr_accountId :: nat
  tr_symbol :: string
  tr_type :: string
  tr_entryPrice :: jsnum
  tr_exitPrice :: "jsnum option"
  tr_takeProfit :: jsnum
  tr_stopLoss :: jsnum
  tr_lotSize :: jsnum
  tr_volume :: jsnum
  tr_profit :: jsnum
  tr_commission :: jsnum
  tr_rrRatio :: string
  tr_strategy :: string
  tr_session :: string
  tr_duration :: string
  tr_date :: string

text \<open>The trade object of the trade form: it has no \<^verbatim>\<open>id\<close>.\<close>

record new_trade =
  nt_accountId :: nat
  nt_symbol :: string
  nt_type :: string
  nt_entryPrice :: jsnum
  nt_exitPrice :: "jsnum option"
  nt_takeProfit :: jsnum
  nt_stopLoss :: jsnum
  nt_lotSize :: jsnum
  nt_volume :: jsnum
  nt_profit :: jsnum
  nt_commission :: jsnum
  nt_rrRatio :: string
  nt_strategy :: string
  nt_session :: string
  nt_duration :: string
  nt_date :: string

text \<open>
  The global variables of \<^verbatim>\<open>main.js\<close>; \<open>db = None\<close> is \<^verbatim>\<open>db\<close> still
  \<^verbatim>\<open>undefined\<close>.
\<close>

record app =
  db :: "conn option"
  currentProfile :: "profile option"
  currentAccount :: "account option"
  accounts :: "account list"
  trades :: "trade list"

text \<open>The values of the input fields of the three forms, by element id.\<close>

record profile_form =
  userName :: string
  currency :: string

record account_form =
  accountName :: string
  accountType :: string
  initialBalance :: string
  broker :: string
  leverage :: string
  instruments :: string

record trade_form =
  symbol :: string
  tradeType :: string
  entryPrice :: string
  exitPrice :: string
  takeProfit :: string
  stopLoss :: string
  lotSize :: string
  volume :: string
  profit :: string
  commission :: string
  rrRatio :: string
  strategy :: string
  session :: string
  duration :: string

text \<open>The statistics panel: what \<^verbatim>\<open>updateStats\<close> writes, by element id and property.\<close>

record stats_view =
  totalPnL_textContent :: string
  totalPnL_className :: string
  totalTrades_textContent :: string
  winRate_textContent :: string
  totalVolume_textContent :: string

section \<open>Store operations\<close>

text \<open>\<^verbatim>\<open>s || ''\<close> on a string \<open>s\<close>: the empty string is the only falsy one.\<close>

definition or_empty :: "string \<Rightarrow> string" where
  "or_empty s = (if s = [] then [] else s)"

text \<open>
  \<^verbatim>\<open>saveProfile\<close>: the body of the \<^verbatim>\<open>try\<close>, then the \<^verbatim>\<open>catch\<close>, which logs the
  error and throws it again. \<open>profile_params\<close> is the row its statement writes: the
  key 1 and the parameter array.
\<close>

definition profile_params :: "profile \<Rightarrow> profile_row" where
  "profile_params p =
     \<lparr>p_id = 1, p_name = pf_name p, p_email = [], p_experience = [],
      p_currency = pf_currency p, p_timezone = []\<rparr>"

definition saveProfile_try :: "profile \<Rightarrow> app \<Rightarrow> error + exec_result \<times> app" where
  "saveProfile_try p s =
     (case db s of
        None \<Rightarrow> Inl (Error ''Database is not initialized'')
      | Some c \<Rightarrow>
          if \<not> has_execute c then
            Inl (Error ''Database execute function is not available'')
          else
            (case insert_or_replace_profile (profile_params p) c of
               Inl e \<Rightarrow> Inl e
             | Inr (result, c') \<Rightarrow> Inr (result, s\<lparr>db := Some c'\<rparr>)))"

definition saveProfile :: "profile \<Rightarrow> app \<Rightarrow> error + exec_result \<times> app" where
  "saveProfile p s =
     (case saveProfile_try p s of
        Inl e \<Rightarrow> Inl e
      | Inr r \<Rightarrow> Inr r)"

text \<open>
  \<^verbatim>\<open>loadProfile\<close>: \<^verbatim>\<open>db.select\<close> on an undefined \<^verbatim>\<open>db\<close> is a TypeError; the
  \<^verbatim>\<open>catch\<close> logs whatever was thrown, and the function returns \<^verbatim>\<open>null\<close>.
\<close>

definition loadProfile_try :: "app \<Rightarrow> error + profile option" where
  "loadProfile_try s =
     (case db s of
        None \<Rightarrow> Inl TypeError
      | Some c \<Rightarrow>
          (case select_profile 1 c of
             Inl e \<Rightarrow> Inl e
           | Inr result \<Rightarrow>
               (case result of
                  [] \<Rightarrow> Inr None
                | r # _ \<Rightarrow> Inr (Some \<lparr>pf_name = p_name r, pf_currency = p_currency r\<rparr>))))"

definition loadProfile :: "app \<Rightarrow> error + profile option" where
  "loadProfile s =
     (case loadProfile_try s of
        Inl e \<Rightarrow> Inr None
      | Inr r \<Rightarrow> Inr r)"

text \<open>
  \<^verbatim>\<open>saveAccount\<close> has no \<^verbatim>\<open>try\<close>: what \<^verbatim>\<open>db.execute\<close> throws leaves it.
  \<open>account_params\<close> is the row its statement writes from the parameter array, under
  the key \<open>i\<close> of the engine.
\<close>

definition account_params :: "new_account \<Rightarrow> nat \<Rightarrow> account_row" where
  "account_params account i =
     \<lparr>a_id = i, a_name = na_name account, a_type = na_type account,
      a_initial_balance = na_initialBalance account,
      a_current_balance = na_currentBalance account,
      a_broker = na_broker account, a_leverage = na_leverage account,
      a_instruments = or_empty (na_instruments account)\<rparr>"

definition saveAccount :: "new_account \<Rightarrow> app \<Rightarrow> error + app" where
  "saveAccount account s =
     (case db s of
        None \<Rightarrow> Inl TypeError
      | Some c \<Rightarrow>
          if \<not> has_execute c then Inl TypeError
          else
            (case insert_account (account_params account) c of
               Inl e \<Rightarrow> Inl e
             | Inr (result, c') \<Rightarrow> Inr (s\<lparr>db := Some c'\<rparr>)))"

text \<open>\<^verbatim>\<open>saveTrade\<close>, and the row its statement writes from the parameter array.\<close>

definition trade_params :: "new_trade \<Rightarrow> nat \<Rightarrow> trade_row" where
  "trade_params trade i =
     \<lparr>t_id = i, t_account_id = nt_accountId trade,
      t_symbol = nt_symbol trade, t_type = nt_type trade,
      t_entry_price = nt_entryPrice trade,
      t_exit_price = nt_exitPrice trade,
      t_take_profit = nt_takeProfit trade,
      t_stop_loss = nt_stopLoss trade,
      t_lot_size = nt_lotSize trade, t_volume = nt_volume trade,
      t_profit = nt_profit trade, t_commission = nt_commission trade,
      t_rr_ratio = or_empty (nt_rrRatio trade),
      t_strategy = or_empty (nt_strategy trade),
      t_session = or_empty (nt_session trade),
      t_duration = or_empty (nt_duration trade),
      t_date = nt_date trade\<rparr>"

definition saveTrade :: "new_trade \<Rightarrow> app \<Rightarrow> error + app" where
  "saveTrade trade s =
     (case db s of
        None \<Rightarrow> Inl TypeError
      | Some c \<Rightarrow>
          if \<not> has_execute c then Inl TypeError
          else
            (case insert_trade (trade_params trade) c of
               Inl e \<Rightarrow> Inl e
             | Inr (result, c') \<Rightarrow> Inr (s\<lparr>db := Some c'\<rparr>)))"

definition account_of_row :: "account_row \<Rightarrow> account" where
  "account_of_row row =
     \<lparr>acc_id = a_id row, acc_name = a_name row, acc_type = a_type row,
      acc_initialBalance = a_initial_balance row,
      acc_currentBalance = a_current_balance row,
      acc_broker = a_broker row, acc_leverage = a_leverage row,
      acc_instruments = a_instruments row\<rparr>"

text \<open>
  \<^verbatim>\<open>loadAccounts\<close>: the query and the assignment to \<^verbatim>\<open>accounts\<close> stand in a
  \<^verbatim>\<open>try\<close> whose \<^verbatim>\<open>catch\<close> only logs. \<^verbatim>\<open>renderAccounts\<close> follows the assignment
  inside the same \<^verbatim>\<open>try\<close> and writes to the page only, so it is left out here.
\<close>

definition loadAccounts_try :: "app \<Rightarrow> error + app" where
  "loadAccounts_try s =
     (case db s of
        None \<Rightarrow> Inl TypeError
      | Some c \<Rightarrow>
          (case select_accounts c of
             Inl e \<Rightarrow> Inl e
           | Inr result \<Rightarrow> Inr (s\<lparr>accounts := map account_of_row result\<rparr>)))"

definition loadAccounts :: "app \<Rightarrow> error + app" where
  "loadAccounts s =
     (case loadAccounts_try s of
        Inl e \<Rightarrow> Inr s
      | Inr s' \<Rightarrow> Inr s')"

definition trade_of_row :: "trade_row \<Rightarrow> trade" where
  "trade_of_row row =
     \<lparr>tr_id = t_id row, tr_accountId = t_account_id row, tr_symbol = t_symbol row,
      tr_type = t_type row, tr_entryPrice = t_entry_price row,
      tr_exitPrice = t_exit_price row, tr_takeProfit = t_take_profit row,
      tr_stopLoss = t_stop_loss row, tr_lotSize = t_lot_size row,
      tr_volume = t_volume row, tr_profit = t_profit row,
      tr_commission = t_commission row, tr_rrRatio = t_rr_ratio row,
      tr_strategy = t_strategy row, tr_session = t_session row,
      tr_duration = t_duration row, tr_date = t_date row\<rparr>"

text \<open>
  \<^verbatim>\<open>loadTrades\<close>, built like \<^verbatim>\<open>loadAccounts\<close>; \<^verbatim>\<open>renderTrades\<close> is left out in
  the same way.
\<close>

definition loadTrades_try :: "nat \<Rightarrow> app \<Rightarrow> error + app" where
  "loadTrades_try accountId s =
     (case db s of
        None \<Rightarrow> Inl TypeError
      | Some c \<Rightarrow>
          (case select_trades accountId c of
             Inl e \<Rightarrow> Inl e
           | Inr result \<Rightarrow> Inr (s\<lparr>trades := map trade_of_row result\<rparr>)))"

definition loadTrades :: "nat \<Rightarrow> app \<Rightarrow> error + app" where
  "loadTrades accountId s =
     (case loadTrades_try accountId s of
        Inl e \<Rightarrow> Inr s
      | Inr s' \<Rightarrow> Inr s')"

section \<open>Statistics and the risk/reward ratio\<close>

text \<open>
  \<^verbatim>\<open>updateStats\<close>. The first assignment reads \<^verbatim>\<open>currentProfile.currency\<close> before
  anything is written, so with no profile the TypeError leaves the panel as it was.
\<close>

definition updateStats :: "host \<Rightarrow> app \<Rightarrow> stats_view \<Rightarrow> error + stats_view" where
  "updateStats h s v =
     (if length (trades s) = 0 then Inr v
      else
        (let totalPnL = foldl (\<lambda>sum t. fadd sum (tr_profit t)) (Fin 0) (trades s);
             wins = length (filter (\<lambda>t. fgt (tr_profit t) (Fin 0)) (trades s));
             winRate = toFixed h 1
                         (fmul (fdiv (num_of_nat wins) (num_of_nat (length (trades s))))
                               (Fin 100));
             totalVolume = foldl (\<lambda>sum t. fadd sum (tr_volume t)) (Fin 0) (trades s)
         in case currentProfile s of
              None \<Rightarrow> Inl TypeError
            | Some p \<Rightarrow>
                Inr \<lparr>totalPnL_textContent = pf_currency p @ '' '' @ toFixed h 2 totalPnL,
                     totalPnL_className =
                       (if fge totalPnL (Fin 0) then ''value positive''
                        else ''value negative''),
                     totalTrades_textContent = show_nat (length (trades s)),
                     winRate_textContent = winRate @ ''%'',
                     totalVolume_textContent = toLocaleString h totalVolume\<rparr>))"

text \<open>\<^verbatim>\<open>calculateRR\<close> reads three fields of the trade form and writes a fourth.\<close>

definition calculateRR :: "host \<Rightarrow> trade_form \<Rightarrow> trade_form" where
  "calculateRR h f =
     (let entry = parseFloat (entryPrice f);
          tp = parseFloat (takeProfit f);
          sl = parseFloat (stopLoss f)
      in if truthy entry \<and> truthy tp \<and> truthy sl then
           (let risk = fabs (fsub entry sl);
                reward = fabs (fsub tp entry);
                ratio = toFixed h 2 (fdiv reward risk)
            in f\<lparr>rrRatio := ''1:'' @ ratio\<rparr>)
         else f)"

section \<open>Form handlers and start-up\<close>

text \<open>
  What a handler tells the user: nothing, a fixed \<^verbatim>\<open>alert\<close> text, or the \<^verbatim>\<open>alert\<close> of
  its \<^verbatim>\<open>catch\<close>, a prefix followed by the message of the error caught.
\<close>

datatype notice = Quiet | Alert string | Failed string error

text \<open>The object literal of the profile form's submit handler.\<close>

definition profile_of_form :: "profile_form \<Rightarrow> profile" where
  "profile_of_form f = \<lparr>pf_name = userName f, pf_currency = currency f\<rparr>"

text \<open>
  The submit handler that \<^verbatim>\<open>setupProfileForm\<close> installs. \<^verbatim>\<open>showMainApp\<close> writes to
  the page only.
\<close>

definition setupProfileForm_submit :: "profile_form \<Rightarrow> app \<Rightarrow> notice \<times> app" where
  "setupProfileForm_submit f s =
     (if userName f = [] \<or> currency f = [] then
        (Failed ''Failed to save profile: '' (Error ''Please fill in all required fields''), s)
      else if db s = None then
        (Failed ''Failed to save profile: ''
           (Error ''Database not initialized. Please refresh the page.''), s)
      else
        (case saveProfile (profile_of_form f) s of
           Inl e \<Rightarrow> (Failed ''Failed to save profile: '' e, s)
         | Inr (result, s1) \<Rightarrow>
             (let s2 = s1\<lparr>currentProfile := Some (profile_of_form f)\<rparr>
              in case loadAccounts s2 of
                   Inl e \<Rightarrow> (Failed ''Failed to save profile: '' e, s2)
                 | Inr s3 \<Rightarrow> (Quiet, s3))))"

text \<open>The object literal of the account form's submit handler.\<close>

definition account_of_form :: "account_form \<Rightarrow> new_account" where
  "account_of_form f =
     \<lparr>na_name = accountName f, na_type = accountType f,
      na_initialBalance = parseFloat (initialBalance f),
      na_currentBalance = parseFloat (initialBalance f),
      na_broker = broker f, na_leverage = leverage f,
      na_instruments = instruments f\<rparr>"

definition setupAccountForm_submit :: "account_form \<Rightarrow> app \<Rightarrow> notice \<times> app" where
  "setupAccountForm_submit f s =
     (case saveAccount (account_of_form f) s of
        Inl e \<Rightarrow> (Failed ''Failed to save account: '' e, s)
      | Inr s1 \<Rightarrow>
          (case loadAccounts s1 of
             Inl e \<Rightarrow> (Failed ''Failed to save account: '' e, s1)
           | Inr s2 \<Rightarrow> (Quiet, s2)))"

text \<open>
  The object literal of the trade form's submit handler: \<open>accountId\<close> is
  \<^verbatim>\<open>currentAccount.id\<close> and \<open>now\<close> is \<^verbatim>\<open>new Date().toISOString()\<close>.
  \<^verbatim>\<open>parseFloat(...) || null\<close> and \<^verbatim>\<open>parseFloat(...) || 0\<close> replace a falsy number.
\<close>

definition trade_of_form :: "nat \<Rightarrow> string \<Rightarrow> trade_form \<Rightarrow> new_trade" where
  "trade_of_form accountId now f =
     \<lparr>nt_accountId = accountId,
      nt_symbol = symbol f,
      nt_type = tradeType f,
      nt_entryPrice = parseFloat (entryPrice f),
      nt_exitPrice =
        (if truthy (parseFloat (exitPrice f)) then Some (parseFloat (exitPrice f))
         else None),
      nt_takeProfit = parseFloat (takeProfit f),
      nt_stopLoss = parseFloat (stopLoss f),
      nt_lotSize = parseFloat (lotSize f),
      nt_volume = parseFloat (volume f),
      nt_profit = parseFloat (profit f),
      nt_commission =
        (if truthy (parseFloat (commission f)) then parseFloat (commission f)
         else Fin 0),
      nt_rrRatio = rrRatio f,
      nt_strategy = strategy f,
      nt_session = session f,
      nt_duration = duration f,
      nt_date = now\<rparr>"

definition setupTradeForm_submit ::
  "host \<Rightarrow> string \<Rightarrow> trade_form \<Rightarrow> app \<Rightarrow> stats_view \<Rightarrow> notice \<times> app \<times> stats_view" where
  "setupTradeForm_submit h now f s v =
     (case currentAccount s of
        None \<Rightarrow> (Alert ''Please select an account first'', s, v)
      | Some a \<Rightarrow>
          (case saveTrade (trade_of_form (acc_id a) now f) s of
             Inl e \<Rightarrow> (Failed ''Failed to save trade: '' e, s, v)
           | Inr s1 \<Rightarrow>
               (case loadTrades (acc_id a) s1 of
                  Inl e \<Rightarrow> (Failed ''Failed to save trade: '' e, s1, v)
                | Inr s2 \<Rightarrow>
                    (case updateStats h s2 v of
                       Inl e \<Rightarrow> (Failed ''Failed to save trade: '' e, s2, v)
                     | Inr v' \<Rightarrow> (Quiet, s2, v')))))"

text \<open>
  \<^verbatim>\<open>testDatabase\<close>: \<^verbatim>\<open>Object.keys(db)\<close> throws on an undefined \<^verbatim>\<open>db\<close>; then a
  test query, a test row with key 999 written to \<^verbatim>\<open>profile\<close>, and a query for it.
  Whatever is thrown is caught and the result is \<^verbatim>\<open>false\<close>.
\<close>

definition testDatabase :: "app \<Rightarrow> bool \<times> app" where
  "testDatabase s =
     (case db s of
        None \<Rightarrow> (False, s)
      | Some c \<Rightarrow>
          (case select_one c of
             Inl e \<Rightarrow> (False, s)
           | Inr testSelect \<Rightarrow>
               if \<not> has_execute c then (False, s)
               else
                 (case insert_or_replace_profile
                         \<lparr>p_id = 999, p_name = ''TestUser'', p_email = ''test@test.com'',
                          p_experience = ''beginner'', p_currency = ''USD'',
                          p_timezone = ''UTC''\<rparr> c of
                    Inl e \<Rightarrow> (False, s)
                  | Inr (testInsert, c') \<Rightarrow>
                      (case select_profile 999 c' of
                         Inl e \<Rightarrow> (False, s\<lparr>db := Some c'\<rparr>)
                       | Inr checkInsert \<Rightarrow> (True, s\<lparr>db := Some c'\<rparr>)))))"

text \<open>
  \<^verbatim>\<open>initDB\<close>. \<open>loaded\<close> is what \<^verbatim>\<open>Database.load\<close> resolves to, \<open>None\<close> when the
  plugin is missing or the load is rejected. \<^verbatim>\<open>db\<close> is assigned before the handle
  is tested.
\<close>

definition initDB :: "conn option \<Rightarrow> app \<Rightarrow> bool \<times> app" where
  "initDB loaded s =
     (case loaded of
        None \<Rightarrow> (False, s)
      | Some c \<Rightarrow>
          if \<not> has_execute c then (False, s\<lparr>db := Some c\<rparr>)
          else (True, s\<lparr>db := Some c\<rparr>))"

definition init :: "host \<Rightarrow> conn option \<Rightarrow> app \<Rightarrow> stats_view \<Rightarrow> error + app \<times> stats_view" where
  "init h loaded s v =
     (case initDB loaded s of
        (dbReady, s1) \<Rightarrow>
          if \<not> dbReady then Inr (s1, v)
          else
            (case loadProfile s1 of
               Inl e \<Rightarrow> Inl e
             | Inr None \<Rightarrow> Inr (s1, v)
             | Inr (Some p) \<Rightarrow>
                 (case loadAccounts (s1\<lparr>currentProfile := Some p\<rparr>) of
                    Inl e \<Rightarrow> Inl e
                  | Inr s2 \<Rightarrow>
                      (case updateStats h s2 v of
                         Inl e \<Rightarrow> Inl e
                       | Inr v' \<Rightarrow> Inr (s2, v')))))"

text \<open>The variables as the script declares them.\<close>

definition initial_app :: app where
  "initial_app =
     \<lparr>db = None, currentProfile = None, currentAccount = None, accounts = [], trades = []\<rparr>"

text \<open>
  The \<^verbatim>\<open>DOMContentLoaded\<close> handler: \<^verbatim>\<open>init\<close>, then \<^verbatim>\<open>testDatabase\<close>; the forms are
  set up afterwards.
\<close>

definition domContentLoaded ::
  "host \<Rightarrow> conn option \<Rightarrow> app \<Rightarrow> stats_view \<Rightarrow> error + app \<times> stats_view" where
  "domContentLoaded h loaded s v =
     (case init h loaded s v of
        Inl e \<Rightarrow> Inl e
      | Inr (s1, v1) \<Rightarrow> Inr (snd (testDatabase s1), v1))"

section \<open>Sums and quotients in double arithmetic\<close>

text \<open>
  Numbers added one after the other to a start value, every addition rounded to a
  double, and the sum from \<open>0\<close>.
\<close>

fun sum_from :: "jsnum \<Rightarrow> jsnum list \<Rightarrow> jsnum" where
  "sum_from acc [] = acc"
| "sum_from acc (x # xs) = sum_from (fadd acc x) xs"

definition double_sum :: "jsnum list \<Rightarrow> jsnum" where
  "double_sum xs = sum_from (Fin 0) xs"

text \<open>
  The number of trades with a profit above \<open>0\<close> (a comparison of two doubles does not
  round).
\<close>

fun count_wins :: "trade list \<Rightarrow> nat" where
  "count_wins [] = 0"
| "count_wins (t # ts) = (if fgt (tr_profit t) (Fin 0) then 1 else 0) + count_wins ts"

text \<open>Wins by trades times 100, the quotient rounded to a double and then the product.\<close>

definition double_winRate :: "trade list \<Rightarrow> jsnum" where
  "double_winRate ts =
     fmul (fdiv (num_of_nat (count_wins ts)) (num_of_nat (length ts))) (Fin 100)"

section \<open>The aggregates in the words of the specification\<close>

text \<open>
  The specification computes with exact decimals. The value of a finite number is the
  rational it denotes; the statements that use \<open>num_value\<close> are about finite numbers.
\<close>

fun num_value :: "jsnum \<Rightarrow> rat" where
  "num_value (Fin a) = a"
| "num_value _ = 0"

text \<open>\<^verbatim>\<open>totalPnL = sum(trade.profit for trade in trades)\<close>\<close>

definition spec_totalPnL :: "trade list \<Rightarrow> rat" where
  "spec_totalPnL ts = sum_list (map (\<lambda>t. num_value (tr_profit t)) ts)"

text \<open>\<^verbatim>\<open>totalVolume = sum(trade.volume for trade in trades)\<close>\<close>

definition spec_totalVolume :: "trade list \<Rightarrow> rat" where
  "spec_totalVolume ts = sum_list (map (\<lambda>t. num_value (tr_volume t)) ts)"

text \<open>\<^verbatim>\<open>tradeCount = length(trades)\<close>\<close>

definition spec_tradeCount :: "trade list \<Rightarrow> nat" where
  "spec_tradeCount ts = length ts"

text \<open>\<^verbatim>\<open>winRate = count(trade.profit > 0) / count(trades) * 100\<close>, before it is rounded.\<close>

definition spec_winRate :: "trade list \<Rightarrow> rat" where
  "spec_winRate ts = of_int (int (count_wins ts)) / of_int (int (spec_tradeCount ts)) * 100"

text \<open>
  Rounding \<open>x\<close> to \<open>f\<close> decimal places is a tie when \<open>x\<close> lies exactly half-way between
  two neighbours, as 28.75 does for one place.
\<close>

definition rounding_tie :: "nat \<Rightarrow> rat \<Rightarrow> bool" where
  "rounding_tie f x = (of_int \<lfloor>x * 10 ^ f + 1 / 2\<rfloor> = x * 10 ^ f + 1 / 2)"

text \<open>
  Whole numbers whose absolute values add up to less than \<open>2\<^sup>5\<^sup>3\<close>: every sum of some of
  them is a double.
\<close>

fun is_whole :: "jsnum \<Rightarrow> bool" where
  "is_whole (Fin a) = (of_int \<lfloor>a\<rfloor> = a)"
| "is_whole _ = False"

definition whole_numbers :: "jsnum list \<Rightarrow> bool" where
  "whole_numbers xs =
     (list_all is_whole xs \<and> sum_list (map (\<lambda>x. \<bar>num_value x\<bar>) xs) < 2 ^ 53)"

section \<open>Concrete inputs\<close>

text \<open>
  A host (its \<open>toLocaleString\<close> writes a number without fraction digits), a connection
  with empty tables, one whose engine rejects every statement, and a profile, used where
  a statement is evaluated on a concrete input.
\<close>

definition bare_host :: host where
  "bare_host = \<lparr>numberToString = (\<lambda>x. ''1e+21''), toLocaleString = (\<lambda>x. [])\<rparr>"

definition demo_host :: host where
  "demo_host = bare_host\<lparr>toLocaleString := toFixed bare_host 0\<rparr>"

definition empty_conn :: conn where
  "empty_conn =
     \<lparr>has_execute = True, fault = None, profile_tbl = [], accounts_tbl = [], trades_tbl = []\<rparr>"

definition broken_conn :: conn where
  "broken_conn = empty_conn\<lparr>fault := Some (StorageError ''database is locked'')\<rparr>"

definition demo_profile :: profile where
  "demo_profile = \<lparr>pf_name = ''Ann'', pf_currency = ''USD''\<rparr>"

definition empty_view :: stats_view where
  "empty_view =
     \<lparr>totalPnL_textContent = [], totalPnL_className = [], totalTrades_textContent = [],
      winRate_textContent = [], totalVolume_textContent = []\<rparr>"

text \<open>A trade with the given profit and volume, as the trade form text has them.\<close>

definition demo_trade :: "string \<Rightarrow> string \<Rightarrow> trade" where
  "demo_trade p vol =
     \<lparr>tr_id = 1, tr_accountId = 1, tr_symbol = ''EURUSD'', tr_type = ''buy'',
      tr_entryPrice = Fin 1, tr_exitPrice = None, tr_takeProfit = Fin 2,
      tr_stopLoss = Fin (1 / 2), tr_lotSize = Fin 1, tr_volume = parseFloat vol,
      tr_profit = parseFloat p, tr_commission = Fin 0, tr_rrRatio = ''1:2.00'',
      tr_strategy = [], tr_session = [], tr_duration = [],
      tr_date = ''2024-05-01T10:00:00.000Z''\<rparr>"

text \<open>A session with a profile and two loaded trades, of profits \<open>10\<close> and \<open>-3\<close>.\<close>

definition demo_stats_app :: app where
  "demo_stats_app =
     initial_app\<lparr>currentProfile := Some demo_profile,
                 trades := [demo_trade ''10'' ''1.5'', demo_trade ''-3'' ''2.5'']\<rparr>"

text \<open>Field values of the account form and of the trade form.\<close>

definition demo_account_form :: account_form where
  "demo_account_form =
     \<lparr>accountName = ''Main'', accountType = ''live'', initialBalance = ''1000'',
      broker = ''X'', leverage = ''1:50'', instruments = []\<rparr>"

definition demo_trade_form :: trade_form where
  "demo_trade_form =
     \<lparr>symbol = ''EURUSD'', tradeType = ''buy'', entryPrice = ''1.5'', exitPrice = [],
      takeProfit = ''2'', stopLoss = ''1'', lotSize = ''1'', volume = ''2.5'',
      profit = ''50'', commission = ''abc'', rrRatio = ''1:1.00'', strategy = [],
      session = [], duration = []\<rparr>"

text \<open>A session whose engine rejects every statement.\<close>

definition broken_app :: app where
  "broken_app = initial_app\<lparr>db := Some broken_conn\<rparr>"

text \<open>
  A session on a working engine with empty tables, the values of the profile form, a
  second profile, and the session as start-up leaves it on such an engine.
\<close>

definition fresh_app :: app where
  "fresh_app = initial_app\<lparr>db := Some empty_conn\<rparr>"

definition demo_profile_form :: profile_form where
  "demo_profile_form = \<lparr>userName = ''Ann'', currency = ''USD''\<rparr>"

definition other_profile :: profile where
  "other_profile = \<lparr>pf_name = ''Bob'', pf_currency = ''EUR''\<rparr>"

definition started_app :: app where
  "started_app =
     initial_app\<lparr>db := Some (empty_conn\<lparr>profile_tbl :=
       [\<lparr>p_id = 999, p_name = ''TestUser'', p_email = ''test@test.com'',
         p_experience = ''beginner'', p_currency = ''USD'', p_timezone = ''UTC''\<rparr>]\<rparr>)\<rparr>"

text \<open>
  A trade row by key, account and date, and a session whose \<^verbatim>\<open>trades\<close> table holds
  three of them: two of account 1 and, between them, one of account 2.
\<close>

definition demo_row :: "nat \<Rightarrow> nat \<Rightarrow> string \<Rightarrow> trade_row" where
  "demo_row i accountId date =
     \<lparr>t_id = i, t_account_id = accountId, t_symbol = ''EURUSD'', t_type = ''buy'',
      t_entry_price = Fin 1, t_exit_price = None, t_take_profit = Fin 2,
      t_stop_loss = Fin (1 / 2), t_lot_size = Fin 1, t_volume = Fin 1,
      t_profit = Fin 5, t_commission = Fin 0, t_rr_ratio = ''1:2.00'',
      t_strategy = [], t_session = [], t_duration = [], t_date = date\<rparr>"



text \<open>
  The account form with a balance that is no number; a session with one account, saved
  from the account form and selected; the trade form with an exit price of zero.
\<close>

definition bad_account_form :: account_form where
  "bad_account_form = demo_account_form\<lparr>initialBalance := ''abc''\<rparr>"

definition trading_conn :: conn where
  "trading_conn =
     empty_conn\<lparr>accounts_tbl := [account_params (account_of_form demo_account_form) 1]\<rparr>"

definition demo_account :: account where
  "demo_account = account_of_row (account_params (account_of_form demo_account_form) 1)"

definition trading_app :: app where
  "trading_app =
     \<lparr>db = Some trading_conn, currentProfile = Some demo_profile,
      currentAccount = Some demo_account, accounts = [demo_account], trades = []\<rparr>"

definition zero_exit_form :: trade_form where
  "zero_exit_form = demo_trade_form\<lparr>exitPrice := ''0''\<rparr>"

text \<open>A trade form whose three prices are all \<^verbatim>\<open>1\<close>.\<close>

definition equal_prices_form :: trade_form where
  "equal_prices_form =
     demo_trade_form\<lparr>entryPrice := ''1'', takeProfit := ''1'', stopLoss := ''1''\<rparr>"

text \<open>
  The trade form with no exit price and a commission of \<^verbatim>\<open>2.5\<close>, and the trade form
  with an exit price of \<^verbatim>\<open>1.75\<close> and the commission \<^verbatim>\<open>abc\<close>.
\<close>

definition blank_exit_form :: trade_form where
  "blank_exit_form = demo_trade_form\<lparr>commission := ''2.5''\<rparr>"

definition bad_commission_form :: trade_form where
  "bad_commission_form = demo_trade_form\<lparr>exitPrice := ''1.75''\<rparr>"

text \<open>
  Three sessions with a profile and loaded trades: three trades of profits \<open>10\<close>, \<open>-3\<close>
  and \<open>5\<close>; eighty trades, twenty-three with the profit \<open>5\<close> and fifty-seven with the
  profit \<open>-5\<close>; three trades of profits \<^verbatim>\<open>1e16\<close>, \<open>3\<close> and \<^verbatim>\<open>-1e16\<close>.
\<close>

definition three_trades_app :: app where
  "three_trades_app =
     initial_app\<lparr>currentProfile := Some demo_profile,
                 trades := [demo_trade ''10'' ''2'', demo_trade ''-3'' ''3'',
                            demo_trade ''5'' ''1'']\<rparr>"

definition tie_app :: app where
  "tie_app =
     initial_app\<lparr>currentProfile := Some demo_profile,
                 trades :=
                   replicate 23 (trade_of_row (demo_row 1 1 ''2024-05-01T10:00:00.000Z'')) @
                   replicate 57 ((trade_of_row (demo_row 1 1 ''2024-05-01T10:00:00.000Z''))
                     \<lparr>tr_profit := Fin (- 5)\<rparr>)\<rparr>"

definition drift_app :: app where
  "drift_app =
     initial_app\<lparr>currentProfile := Some demo_profile,
                 trades := [demo_trade ''1e16'' ''1'', demo_trade ''3'' ''1'',
                            demo_trade ''-1e16'' ''1'']\<rparr>"

section \<open>Rounding to a double\<close>

lemma pow2_powi: "pow2 k = 2 powi k"
  by (simp add: pow2_def power_int_def power_one_over inverse_eq_divide)

lemma pow2_pos: "0 < pow2 k"
  by (simp add: pow2_powi)

lemma pow2_mono: "i \<le> j \<Longrightarrow> pow2 i \<le> pow2 j"
  by (simp add: pow2_powi power_int_increasing)

lemma pow2_add: "pow2 (i + j) = pow2 i * pow2 j"
  by (simp add: pow2_powi power_int_add)

lemma floor_log2_le:
  assumes "0 < a"
  shows "pow2 (floor_log2 a) \<le> a"
proof -
  obtain n d where nd: "quotient_of a = (n, d)"
    by (cases "quotient_of a")
  have d: "0 < d"
    using nd by (rule quotient_of_denom_pos)
  have a: "a = of_int n / of_int d"
    using nd by (rule quotient_of_div)
  have n: "0 < n"
    using assms d a by (simp add: zero_less_divide_iff)
  let ?k = "bitlen n - bitlen d"
  show ?thesis
  proof (cases "pow2 ?k \<le> a")
    case True
    then show ?thesis by (simp add: floor_log2_def nd)
  next
    case False
    have bn: "1 \<le> bitlen n" and bd: "1 \<le> bitlen d"
      using n d by (simp_all add: bitlen_alt_def)
    have "(2::int) ^ nat (bitlen n - 1) \<le> n" and "d < 2 ^ nat (bitlen d)"
      using bitlen_bounds [OF n] bitlen_bounds [OF d] by simp_all
    then have "(of_int (2 ^ nat (bitlen n - 1)) :: rat) \<le> of_int n"
      and "(of_int d :: rat) \<le> of_int (2 ^ nat (bitlen d))"
      by (simp_all only: of_int_le_iff)
    then have 1: "pow2 (bitlen n - 1) \<le> of_int n" and 2: "of_int d \<le> pow2 (bitlen d)"
      using bn bd by (simp_all add: pow2_def)
    have "pow2 (?k - 1) * pow2 (bitlen d) = pow2 (bitlen n - 1)"
      by (simp add: pow2_add [symmetric])
    then have "pow2 (?k - 1) = pow2 (bitlen n - 1) / pow2 (bitlen d)"
      using pow2_pos [of "bitlen d"] by (simp add: field_simps)
    also have "\<dots> \<le> of_int n / of_int d"
      using 1 2 d pow2_pos [of "bitlen n - 1"] by (intro frac_le) simp_all
    finally have "pow2 (?k - 1) \<le> a"
      using a by simp
    with False show ?thesis by (simp add: floor_log2_def nd)
  qed
qed

lemma round_half_even_ge: "\<lfloor>x\<rfloor> \<le> round_half_even x"
  by (simp add: round_half_even_def Let_def)

lemma to_double_unfold:
  assumes "q \<noteq> 0"
    and "e = max (floor_log2 \<bar>q\<bar> - 52) (- 1074)"
    and "m = round_half_even (\<bar>q\<bar> / pow2 e)"
  shows "to_double q =
     (if 1024 < bitlen m + e then (if q < 0 then NegInf else PosInf)
      else Fin (if q < 0 then - (of_int m * pow2 e) else of_int m * pow2 e))"
  unfolding assms(2,3) using assms(1) by (simp add: to_double_def Let_def)

lemma significand_pos:
  assumes "pow2 (- 1074) \<le> \<bar>q\<bar>"
    and "e = max (floor_log2 \<bar>q\<bar> - 52) (- 1074)"
    and "m = round_half_even (\<bar>q\<bar> / pow2 e)"
  shows "1 \<le> m"
proof -
  have a: "0 < \<bar>q\<bar>"
    using assms(1) pow2_pos [of "- 1074"] by linarith
  have "pow2 (floor_log2 \<bar>q\<bar> - 52) \<le> pow2 (floor_log2 \<bar>q\<bar>)"
    by (rule pow2_mono) simp
  also have "\<dots> \<le> \<bar>q\<bar>"
    by (rule floor_log2_le [OF a])
  finally have "pow2 e \<le> \<bar>q\<bar>"
    using assms(1) by (simp add: assms(2) max_def)
  then have "1 \<le> \<bar>q\<bar> / pow2 e"
    using pow2_pos [of e] by (simp add: field_simps)
  then have "1 \<le> \<lfloor>\<bar>q\<bar> / pow2 e\<rfloor>"
    by simp
  then show ?thesis
    unfolding assms(3) using round_half_even_ge [of "\<bar>q\<bar> / pow2 e"] by linarith
qed

lemma to_double_nonzero:
  assumes "pow2 (- 1074) \<le> \<bar>q\<bar>"
  shows "to_double q \<noteq> Fin 0"
proof -
  define e where "e = max (floor_log2 \<bar>q\<bar> - 52) (- 1074)"
  define m where "m = round_half_even (\<bar>q\<bar> / pow2 e)"
  have q: "q \<noteq> 0"
    using assms pow2_pos [of "- 1074"] by auto
  have "1 \<le> m"
    by (rule significand_pos [OF assms e_def m_def])
  then have "m \<noteq> 0" and "pow2 e \<noteq> 0"
    using pow2_pos [of e] by simp_all
  then show ?thesis
    by (simp add: to_double_unfold [OF q e_def m_def])
qed

text \<open>Every finite result of rounding is a multiple of the least positive double.\<close>

lemma to_double_grid:
  assumes "to_double q = Fin v"
  shows "\<exists>k::int. v = of_int k * pow2 (- 1074)"
proof (cases "q = 0")
  case True
  with assms have "v = 0" by (simp add: to_double_def)
  then show ?thesis by (intro exI [of _ 0]) simp
next
  case q: False
  define e where "e = max (floor_log2 \<bar>q\<bar> - 52) (- 1074)"
  define m where "m = round_half_even (\<bar>q\<bar> / pow2 e)"
  have e: "0 \<le> e + 1074"
    by (simp add: e_def)
  have "pow2 e = pow2 (e + 1074) * pow2 (- 1074)"
    by (simp add: pow2_add [symmetric])
  also have "pow2 (e + 1074) = of_int (2 ^ nat (e + 1074))"
    using e by (simp add: pow2_def)
  finally have p: "pow2 e = of_int (2 ^ nat (e + 1074)) * pow2 (- 1074)" .
  from assms have "v = (if q < 0 then - (of_int m * pow2 e) else of_int m * pow2 e)"
    by (simp add: to_double_unfold [OF q e_def m_def] split: if_splits)
  then have "v = of_int ((if q < 0 then - m else m) * 2 ^ nat (e + 1074)) * pow2 (- 1074)"
    by (simp add: p)
  then show ?thesis by blast
qed

lemma unsigned_literal_grid:
  assumes "unsigned_literal t = Fin v"
  shows "\<exists>k::int. v = of_int k * pow2 (- 1074)"
  using assms
  by (auto simp: unsigned_literal_def Let_def split: if_splits dest: to_double_grid)

lemma parseFloat_grid:
  assumes "parseFloat str = Fin v"
  shows "\<exists>k::int. v = of_int k * pow2 (- 1074)"
proof -
  have neg: "\<exists>k::int. v = of_int k * pow2 (- 1074)" if "fneg (unsigned_literal r) = Fin v" for r
  proof -
    from that have "unsigned_literal r = Fin (- v)"
      by (cases "unsigned_literal r") simp_all
    then obtain k :: int where "- v = of_int k * pow2 (- 1074)"
      using unsigned_literal_grid by blast
    then have "v = of_int (- k) * pow2 (- 1074)"
      by simp
    then show ?thesis by blast
  qed
  show ?thesis
    using assms
    by (auto simp: parseFloat_def Let_def split: list.splits if_splits
        dest: unsigned_literal_grid neg)
qed

text \<open>The difference of two different doubles does not round to zero.\<close>

lemma fsub_nonzero:
  assumes "a = of_int i * pow2 (- 1074)" and "b = of_int j * pow2 (- 1074)" and "a \<noteq> b"
  shows "fsub (Fin a) (Fin b) \<noteq> Fin 0"
proof -
  have "i \<noteq> j"
    using assms by auto
  then have "1 \<le> \<bar>i - j\<bar>"
    by simp
  then have "(1::rat) \<le> of_int \<bar>i - j\<bar>"
    by (simp only: of_int_1_le_iff)
  then have "pow2 (- 1074) \<le> of_int \<bar>i - j\<bar> * pow2 (- 1074)"
    using pow2_pos [of "- 1074"] by simp
  also have "\<dots> = \<bar>a - b\<bar>"
    using pow2_pos [of "- 1074"] by (simp add: assms(1,2) abs_mult left_diff_distrib [symmetric])
  finally have "to_double (a - b) \<noteq> Fin 0"
    by (rule to_double_nonzero)
  then show ?thesis
    by (simp add: fsub_def)
qed

lemma to_double_not_NaN: "to_double q \<noteq> NaN"
  by (simp add: to_double_def Let_def)

lemma fdiv_abs_zero:
  assumes "x \<noteq> NaN" and "x \<noteq> Fin 0"
  shows "fdiv (fabs x) (Fin 0) = PosInf"
  using assms by (cases x) (simp_all add: signed_inf_def)

lemma fsub_same: "fsub (Fin a) (Fin a) = Fin 0"
  by (simp add: fsub_def to_double_def)

lemma fsub_not_NaN: "fsub (Fin a) (Fin b) \<noteq> NaN"
  by (simp add: fsub_def to_double_not_NaN)

lemma pow2_less_cancel: "pow2 i < pow2 j \<Longrightarrow> i < j"
  using pow2_mono [of j i] by (cases "i < j") simp_all

lemma pow2_nat: "0 \<le> k \<Longrightarrow> pow2 k = of_int (2 ^ nat k)"
  by (simp add: pow2_def)

lemma floor_log2_gt:
  assumes "0 < a"
  shows "a < pow2 (floor_log2 a + 1)"
proof -
  obtain n d where nd: "quotient_of a = (n, d)"
    by (cases "quotient_of a")
  have d: "0 < d"
    using nd by (rule quotient_of_denom_pos)
  have a: "a = of_int n / of_int d"
    using nd by (rule quotient_of_div)
  have n: "0 < n"
    using assms d a by (simp add: zero_less_divide_iff)
  let ?k = "bitlen n - bitlen d"
  show ?thesis
  proof (cases "pow2 ?k \<le> a")
    case False
    then show ?thesis by (simp add: floor_log2_def nd)
  next
    case True
    have bn: "1 \<le> bitlen n" and bd: "1 \<le> bitlen d"
      using n d by (simp_all add: bitlen_alt_def)
    have "n < 2 ^ nat (bitlen n)" and "(2::int) ^ nat (bitlen d - 1) \<le> d"
      using bitlen_bounds [OF n] bitlen_bounds [OF d] by simp_all
    then have "(of_int n :: rat) < of_int (2 ^ nat (bitlen n))"
      and "(of_int (2 ^ nat (bitlen d - 1)) :: rat) \<le> of_int d"
      by (simp_all only: of_int_less_iff of_int_le_iff)
    then have 1: "of_int n < pow2 (bitlen n)" and 2: "pow2 (bitlen d - 1) \<le> of_int d"
      using bn bd by (simp_all add: pow2_nat)
    have "of_int n / of_int d < pow2 (bitlen n) / pow2 (bitlen d - 1)"
      using 1 2 n pow2_pos [of "bitlen d - 1"] by (intro frac_less) simp_all
    also have "pow2 (?k + 1) * pow2 (bitlen d - 1) = pow2 (bitlen n)"
      by (simp add: pow2_add [symmetric])
    then have "pow2 (bitlen n) / pow2 (bitlen d - 1) = pow2 (?k + 1)"
      using pow2_pos [of "bitlen d - 1"] by (simp add: field_simps)
    finally have "a < pow2 (?k + 1)"
      using a by simp
    with True show ?thesis by (simp add: floor_log2_def nd)
  qed
qed

lemma floor_log2_unique:
  assumes "pow2 j \<le> a" and "a < pow2 (j + 1)"
  shows "floor_log2 a = j"
proof -
  have a: "0 < a"
    using assms(1) pow2_pos [of j] by linarith
  have "pow2 j < pow2 (floor_log2 a + 1)"
    using assms(1) floor_log2_gt [OF a] by linarith
  then have 1: "j < floor_log2 a + 1"
    by (rule pow2_less_cancel)
  have "pow2 (floor_log2 a) < pow2 (j + 1)"
    using assms(2) floor_log2_le [OF a] by linarith
  then have "floor_log2 a < j + 1"
    by (rule pow2_less_cancel)
  with 1 show ?thesis by simp
qed

lemma round_half_even_of_int: "round_half_even (of_int z) = z"
  by (simp add: round_half_even_def)

lemma bitlen_le_53:
  assumes "0 < k" and "k < 2 ^ 53"
  shows "bitlen k \<le> 53"
proof -
  have "(2::int) ^ nat (bitlen k - 1) < 2 ^ 53"
    using bitlen_bounds [OF assms(1)] assms(2) by linarith
  then have "nat (bitlen k - 1) < 53"
    by (rule power_less_imp_less_exp [rotated]) simp
  then show ?thesis by simp
qed

text \<open>The overflow test of \<open>to_double\<close>: the value is \<open>2\<^sup>1\<^sup>0\<^sup>2\<^sup>4\<close> or more.\<close>

lemma overflow_iff:
  assumes "0 < m"
  shows "1024 < bitlen m + e \<longleftrightarrow> 2 ^ 1024 \<le> of_int m * pow2 e"
proof -
  have bm: "1 \<le> bitlen m"
    using assms by (simp add: bitlen_alt_def)
  have "(2::int) ^ nat (bitlen m - 1) \<le> m" and "m < 2 ^ nat (bitlen m)"
    using bitlen_bounds [OF assms] by simp_all
  then have "(of_int (2 ^ nat (bitlen m - 1)) :: rat) \<le> of_int m"
    and "(of_int m :: rat) < of_int (2 ^ nat (bitlen m))"
    by (simp_all only: of_int_less_iff of_int_le_iff)
  then have lo: "pow2 (bitlen m - 1) \<le> of_int m" and hi: "of_int m < pow2 (bitlen m)"
    using bm by (simp_all add: pow2_nat)
  have p: "(2::rat) ^ 1024 = pow2 1024"
    by (simp add: pow2_def)
  show ?thesis
  proof
    assume "1024 < bitlen m + e"
    then have "pow2 1024 \<le> pow2 (bitlen m - 1 + e)"
      by (intro pow2_mono) simp
    also have "\<dots> = pow2 (bitlen m - 1) * pow2 e"
      by (rule pow2_add)
    also have "\<dots> \<le> of_int m * pow2 e"
      using lo pow2_pos [of e] by simp
    finally show "2 ^ 1024 \<le> of_int m * pow2 e"
      by (simp only: p)
  next
    assume "2 ^ 1024 \<le> of_int m * pow2 e"
    then have "pow2 1024 \<le> of_int m * pow2 e"
      by (simp only: p)
    also have "\<dots> < pow2 (bitlen m) * pow2 e"
      using hi pow2_pos [of e] by simp
    also have "\<dots> = pow2 (bitlen m + e)"
      by (rule pow2_add [symmetric])
    finally have "1024 < bitlen m + e"
      by (rule pow2_less_cancel)
    then show "1024 < bitlen m + e" .
  qed
qed

text \<open>
  A number with a significand of at most 53 bits, an exponent from \<open>-1074\<close> on and a
  value below \<open>2\<^sup>1\<^sup>0\<^sup>2\<^sup>4\<close> is a double: rounding leaves it as it is.
\<close>

lemma to_double_exact:
  assumes "\<bar>k\<bar> < 2 ^ 53" and "- 1074 \<le> x" and "bitlen \<bar>k\<bar> + x \<le> 1024"
  shows "to_double (of_int k * pow2 x) = Fin (of_int k * pow2 x)"
proof (cases "k = 0")
  case True
  then show ?thesis by (simp add: to_double_def)
next
  case False
  define q where "q = (of_int k :: rat) * pow2 x"
  define b where "b = bitlen \<bar>k\<bar>"
  define e where "e = max (floor_log2 \<bar>q\<bar> - 52) (- 1074)"
  define m where "m = round_half_even (\<bar>q\<bar> / pow2 e)"
  have k: "0 < \<bar>k\<bar>"
    using False by simp
  have q: "q \<noteq> 0"
    using False pow2_pos [of x] by (simp add: q_def)
  have aq: "\<bar>q\<bar> = of_int \<bar>k\<bar> * pow2 x"
    using pow2_pos [of x] by (simp add: q_def abs_mult)
  have b1: "1 \<le> b"
    using k by (simp add: b_def bitlen_alt_def)
  have "(2::int) ^ nat (b - 1) \<le> \<bar>k\<bar>" and "\<bar>k\<bar> < 2 ^ nat b"
    using bitlen_bounds [OF k] by (simp_all add: b_def)
  then have "(of_int (2 ^ nat (b - 1)) :: rat) \<le> of_int \<bar>k\<bar>"
    and "(of_int \<bar>k\<bar> :: rat) < of_int (2 ^ nat b)"
    by (simp_all only: of_int_less_iff of_int_le_iff)
  then have lo: "pow2 (b - 1) \<le> of_int \<bar>k\<bar>" and hi: "of_int \<bar>k\<bar> < pow2 b"
    using b1 by (simp_all add: pow2_nat)
  have b53: "b \<le> 53"
    unfolding b_def by (rule bitlen_le_53 [OF k assms(1)])
  have "pow2 (b - 1 + x) \<le> \<bar>q\<bar>"
    using lo pow2_pos [of x] by (simp add: aq pow2_add)
  moreover have "\<bar>q\<bar> < pow2 (b - 1 + x + 1)"
    using hi pow2_pos [of x] by (simp add: aq pow2_add [symmetric])
       (simp add: pow2_add)
  ultimately have fl: "floor_log2 \<bar>q\<bar> = b - 1 + x"
    by (rule floor_log2_unique)
  have ex: "e \<le> x"
    using b53 assms(2) by (simp add: e_def fl)
  have "pow2 x = pow2 (x - e) * pow2 e"
    by (simp add: pow2_add [symmetric])
  also have "pow2 (x - e) = of_int (2 ^ nat (x - e))"
    using ex by (simp add: pow2_nat)
  finally have px: "pow2 x = of_int (2 ^ nat (x - e)) * pow2 e" .
  have "\<bar>q\<bar> / pow2 e = of_int (\<bar>k\<bar> * 2 ^ nat (x - e))"
    using pow2_pos [of e] by (simp add: aq px)
  then have m: "m = \<bar>k\<bar> * 2 ^ nat (x - e)"
    by (simp only: m_def round_half_even_of_int)
  have v: "of_int m * pow2 e = \<bar>q\<bar>"
    by (simp add: m aq px)
  have "bitlen m = b + int (nat (x - e))"
    unfolding m b_def by (rule bitlen_pow2 [OF k])
  then have "bitlen m + e = b + x"
    using ex by simp
  then have no: "\<not> 1024 < bitlen m + e"
    using assms(3) by (simp add: b_def)
  have "to_double q = Fin (if q < 0 then - \<bar>q\<bar> else \<bar>q\<bar>)"
    using no by (simp add: to_double_unfold [OF q e_def m_def] v)
  then show ?thesis
    by (simp add: q_def [symmetric] abs_if)
qed

lemma to_double_of_int:
  assumes "\<bar>k\<bar> < 2 ^ 53"
  shows "to_double (of_int k) = Fin (of_int k)"
proof -
  have "bitlen \<bar>k\<bar> \<le> 53"
  proof (cases "k = 0")
    case True
    then show ?thesis by simp
  next
    case False
    then have "0 < \<bar>k\<bar>" by simp
    then show ?thesis using assms by (rule bitlen_le_53)
  qed
  then have "to_double (of_int k * pow2 0) = Fin (of_int k * pow2 0)"
    using assms by (intro to_double_exact) simp_all
  then show ?thesis
    by (simp add: pow2_def)
qed

lemma round_half_even_error: "\<bar>of_int (round_half_even x) - x\<bar> \<le> 1 / 2"
proof -
  have "of_int \<lfloor>x\<rfloor> \<le> x" and "x < of_int \<lfloor>x\<rfloor> + 1"
    by linarith+
  then show ?thesis
    by (auto simp: round_half_even_def Let_def)
qed

lemma round_half_even_le: "round_half_even x \<le> \<lfloor>x\<rfloor> + 1"
  by (simp add: round_half_even_def Let_def)

lemma bitlen_le:
  assumes "0 < m" and "m < 2 ^ k"
  shows "bitlen m \<le> int k"
proof -
  have "(2::int) ^ nat (bitlen m - 1) < 2 ^ k"
    using bitlen_bounds [OF assms(1)] assms(2) by linarith
  then have "nat (bitlen m - 1) < k"
    by (rule power_less_imp_less_exp [rotated]) simp
  then show ?thesis by simp
qed

text \<open>
  In the range of the normal doubles a rounded result is off by at most \<open>2\<^sup>-\<^sup>5\<^sup>3\<close> of the
  exact one.
\<close>

lemma to_double_error:
  assumes "pow2 (- 1022) \<le> \<bar>q\<bar>" and "\<bar>q\<bar> < pow2 1023"
  shows "\<exists>v. to_double q = Fin v \<and> \<bar>v - q\<bar> \<le> \<bar>q\<bar> / 2 ^ 53"
proof -
  define fl where "fl = floor_log2 \<bar>q\<bar>"
  define e where "e = max (floor_log2 \<bar>q\<bar> - 52) (- 1074)"
  define m where "m = round_half_even (\<bar>q\<bar> / pow2 e)"
  have a: "0 < \<bar>q\<bar>"
    using assms(1) pow2_pos [of "- 1022"] by linarith
  then have q: "q \<noteq> 0" by simp
  have lo: "pow2 fl \<le> \<bar>q\<bar>" and hi: "\<bar>q\<bar> < pow2 (fl + 1)"
    unfolding fl_def by (rule floor_log2_le [OF a], rule floor_log2_gt [OF a])
  have "pow2 (- 1022) < pow2 (fl + 1)"
    using assms(1) hi by linarith
  then have fl1: "- 1022 \<le> fl"
    using pow2_less_cancel [of "- 1022" "fl + 1"] by simp
  have "pow2 fl < pow2 1023"
    using assms(2) lo by linarith
  then have fl2: "fl \<le> 1022"
    using pow2_less_cancel [of fl 1023] by simp
  have e: "e = fl - 52"
    using fl1 by (simp add: e_def fl_def)
  have "pow2 (- 1074) \<le> pow2 (- 1022)"
    by (rule pow2_mono) simp
  then have "pow2 (- 1074) \<le> \<bar>q\<bar>"
    using assms(1) by linarith
  then have m1: "1 \<le> m"
    by (rule significand_pos [OF _ e_def m_def])
  have "pow2 (fl + 1) = pow2 (53 + e)"
    by (rule arg_cong [of _ _ pow2]) (simp add: e)
  then have "pow2 (fl + 1) = pow2 53 * pow2 e"
    by (simp only: pow2_add)
  then have "\<bar>q\<bar> / pow2 e < pow2 53"
    using hi pow2_pos [of e] by (simp add: field_simps)
  then have "\<bar>q\<bar> / pow2 e < of_int (2 ^ 53)"
    by (simp add: pow2_def)
  then have "\<lfloor>\<bar>q\<bar> / pow2 e\<rfloor> < 2 ^ 53"
    by (simp only: floor_less_iff)
  then have "m \<le> 2 ^ 53"
    unfolding m_def using round_half_even_le [of "\<bar>q\<bar> / pow2 e"] by linarith
  then have "m < 2 ^ 54"
    by simp
  then have "bitlen m \<le> 54"
    using bitlen_le [of m 54] m1 by simp
  then have no: "\<not> 1024 < bitlen m + e"
    using fl2 by (simp add: e)
  define v where "v = (of_int m :: rat) * pow2 e"
  have td: "to_double q = Fin (if q < 0 then - v else v)"
    using no by (simp add: to_double_unfold [OF q e_def m_def] v_def)
  have "v - \<bar>q\<bar> = (of_int m - \<bar>q\<bar> / pow2 e) * pow2 e"
    using pow2_pos [of e] by (simp add: v_def left_diff_distrib)
  then have "\<bar>v - \<bar>q\<bar>\<bar> = \<bar>of_int m - \<bar>q\<bar> / pow2 e\<bar> * \<bar>pow2 e\<bar>"
    by (simp only: abs_mult)
  then have "\<bar>v - \<bar>q\<bar>\<bar> = \<bar>of_int m - \<bar>q\<bar> / pow2 e\<bar> * pow2 e"
    using pow2_pos [of e] by simp
  also have "\<dots> \<le> 1 / 2 * pow2 e"
    using round_half_even_error [of "\<bar>q\<bar> / pow2 e"] pow2_pos [of e]
    by (intro mult_right_mono) (simp_all add: m_def)
  also have "1 / 2 * pow2 e = pow2 fl / 2 ^ 53"
  proof -
    have "pow2 fl = pow2 (52 + e)"
      by (rule arg_cong [of _ _ pow2]) (simp add: e)
    then have "pow2 fl = pow2 52 * pow2 e"
      by (simp only: pow2_add)
    then show ?thesis
      by (simp add: pow2_def)
  qed
  also have "\<dots> \<le> \<bar>q\<bar> / 2 ^ 53"
    using lo by (simp add: divide_right_mono)
  finally have "\<bar>v - \<bar>q\<bar>\<bar> \<le> \<bar>q\<bar> / 2 ^ 53" .
  then have "\<bar>(if q < 0 then - v else v) - q\<bar> \<le> \<bar>q\<bar> / 2 ^ 53"
    by (simp add: abs_if split: if_splits)
  with td show ?thesis by blast
qed

text \<open>
  A percentage of \<open>w\<close> out of \<open>n\<close> in double arithmetic is a finite number between \<open>0\<close>
  and \<open>201\<close> within \<open>2\<^sup>-\<^sup>4\<^sup>4\<close> of the exact percentage.
\<close>

lemma percent_error:
  assumes "w \<le> n" and "0 < n" and "n < 2 ^ 32"
  shows "\<exists>y. fmul (fdiv (num_of_nat w) (num_of_nat n)) (Fin 100) = Fin y \<and>
           0 \<le> y \<and> y \<le> 201 \<and>
           \<bar>y - of_int (int w) / of_int (int n) * 100\<bar> \<le> 1 / 2 ^ 44"
proof (cases "w = 0")
  case True
  then have "fmul (fdiv (num_of_nat w) (num_of_nat n)) (Fin 100) = Fin 0"
    using assms(2) by (simp add: num_of_nat_def to_double_def)
  with True show ?thesis by simp
next
  case False
  define q1 :: rat where "q1 = of_int (int w) / of_int (int n)"
  have n: "(0::rat) < of_int (int n)" and w: "(1::rat) \<le> of_int (int w)"
    using assms(2) False by simp_all
  have "of_int (int n) < (2::rat) ^ 32"
    using assms(3) by (metis of_int_of_nat_eq of_nat_less_iff of_nat_numeral of_nat_power)
  then have "1 / 2 ^ 32 < 1 / (of_int (int n) :: rat)"
    using n by (simp add: field_simps)
  also have "\<dots> \<le> q1"
    unfolding q1_def using n w by (intro divide_right_mono) simp_all
  finally have q1_lo: "1 / 2 ^ 32 < q1" .
  have q1_hi: "q1 \<le> 1"
    unfolding q1_def using n assms(1) by simp
  have p32: "pow2 (- 1022) \<le> 1 / 2 ^ 32"
    using pow2_mono [of "- 1022" "- 32"] by (simp add: pow2_def)
  have p8: "(256::rat) \<le> pow2 1023"
    using pow2_mono [of 8 1023] by (simp add: pow2_def)
  have "pow2 (- 1022) \<le> \<bar>q1\<bar>" and "\<bar>q1\<bar> < pow2 1023"
    using q1_lo q1_hi p32 p8 by simp_all
  then obtain x where x: "to_double q1 = Fin x" and ex: "\<bar>x - q1\<bar> \<le> \<bar>q1\<bar> / 2 ^ 53"
    using to_double_error by blast
  have q1_pos: "0 < q1"
    using q1_lo by (simp add: less_trans [OF _ q1_lo])
  have ex': "\<bar>x - q1\<bar> \<le> q1 / 9007199254740992"
    using ex q1_pos by simp
  have x_lo: "q1 / 2 \<le> x" and x_hi: "x \<le> 2"
    using ex' q1_pos q1_hi by linarith+
  define q2 where "q2 = x * 100"
  have q2_lo: "1 / 2 ^ 32 \<le> q2" and q2_hi: "q2 \<le> 200"
    using x_lo x_hi q1_lo unfolding q2_def by simp_all
  then have q2_pos: "0 < q2"
    by (simp add: less_le_trans [OF _ q2_lo])
  have "pow2 (- 1022) \<le> \<bar>q2\<bar>" and "\<bar>q2\<bar> < pow2 1023"
    using q2_lo q2_hi q2_pos p32 p8 by simp_all
  then obtain y where y: "to_double q2 = Fin y" and ey: "\<bar>y - q2\<bar> \<le> \<bar>q2\<bar> / 2 ^ 53"
    using to_double_error by blast
  have nz: "((of_int (int n) :: rat) = 0) = False"
    using n by simp
  have "fdiv (num_of_nat w) (num_of_nat n) = Fin x"
    unfolding num_of_nat_def by (simp only: fdiv.simps nz if_False q1_def [symmetric] x)
  then have "fmul (fdiv (num_of_nat w) (num_of_nat n)) (Fin 100) = Fin y"
    by (simp only: fmul.simps q2_def [symmetric] y)
  moreover have ey': "\<bar>y - q2\<bar> \<le> q2 / 9007199254740992"
    using ey q2_pos by simp
  moreover have "0 \<le> y" and "y \<le> 201"
    using ey' q2_pos q2_hi by linarith+
  moreover have "\<bar>y - q1 * 100\<bar> \<le> 1 / 2 ^ 44"
  proof -
    have a1: "\<bar>x - q1\<bar> \<le> 1 / 9007199254740992"
      using ex' q1_hi by linarith
    have a2: "\<bar>y - q2\<bar> \<le> 200 / 9007199254740992"
      using ey' q2_hi by linarith
    have "y - q1 * 100 = (y - q2) + 100 * (x - q1)"
      by (simp add: q2_def)
    then have "\<bar>y - q1 * 100\<bar> \<le> \<bar>y - q2\<bar> + \<bar>100 * (x - q1)\<bar>"
      by (simp only: abs_triangle_ineq)
    moreover have "\<bar>100 * (x - q1)\<bar> = 100 * \<bar>x - q1\<bar>"
      by (simp only: abs_mult abs_numeral)
    ultimately have "\<bar>y - q1 * 100\<bar> \<le> \<bar>y - q2\<bar> + 100 * \<bar>x - q1\<bar>"
      by (simp only:)
    moreover have "A \<le> 1 / 17592186044416"
      if "A \<le> B + 100 * C" and "C \<le> 1 / 9007199254740992"
        and "B \<le> 200 / 9007199254740992" for A B C :: rat
      using that by linarith
    ultimately have "\<bar>y - q1 * 100\<bar> \<le> 1 / 17592186044416"
      using a1 a2 by blast
    then show ?thesis by simp
  qed
  ultimately show ?thesis
    by (auto simp: q1_def)
qed


text \<open>
  Away from a tie, a number within \<open>2\<^sup>-\<^sup>4\<^sup>4\<close> of a percentage of fewer than \<open>2\<^sup>3\<^sup>2\<close>
  trades rounds to the same decimal as the percentage itself.
\<close>

lemma nearest_stable:
  assumes "0 < n" and "n < 2 ^ 32"
    and "r = of_int (int w) / of_int (int n) * 100"
    and "\<bar>y - r\<bar> \<le> 1 / 2 ^ 44"
    and "\<not> rounding_tie 1 r"
  shows "\<lfloor>y * 10 ^ 1 + 1 / 2\<rfloor> = \<lfloor>r * 10 ^ 1 + 1 / 2\<rfloor>"
proof -
  define z where "z = r * 10 + 1 / 2"
  define N where "N = \<lfloor>z\<rfloor>"
  define D :: int where "D = 2 * int n"
  define K :: int where "K = 2000 * int w + int n"
  have D: "0 < D" and D33: "D < 2 ^ 33"
    using assms(1,2) by (simp_all add: D_def)
  have dpos: "(0::rat) < of_int D"
    using D by simp
  have "(of_int D :: rat) < of_int (2 ^ 33)"
    using D33 by (simp only: of_int_less_iff)
  then have d33: "(of_int D :: rat) < 8589934592"
    by simp
  have zK: "z * of_int D = of_int K"
    using assms(1) by (simp add: z_def assms(3) D_def K_def field_simps)
  have "of_int N \<le> z" and zN1: "z < of_int N + 1"
    unfolding N_def by linarith+
  moreover have "of_int N \<noteq> z"
    using assms(5) by (simp add: rounding_tie_def z_def N_def)
  ultimately have Nz: "of_int N < z"
    by simp
  have "of_int N * of_int D < z * (of_int D :: rat)"
    using Nz dpos by (rule mult_strict_right_mono)
  then have "(of_int (N * D) :: rat) < of_int K"
    by (simp add: zK)
  then have "N * D < K"
    by (simp only: of_int_less_iff)
  then have "N * D + 1 \<le> K"
    by simp
  then have "(of_int (N * D + 1) :: rat) \<le> of_int K"
    by (simp only: of_int_le_iff)
  then have "of_int N * of_int D + 1 \<le> z * (of_int D :: rat)"
    by (simp add: zK)
  then have lo: "of_int N + 1 / of_int D \<le> z"
    using dpos by (simp add: field_simps)
  have "z * (of_int D :: rat) < (of_int N + 1) * of_int D"
    using zN1 dpos by (rule mult_strict_right_mono)
  then have "(of_int K :: rat) < of_int ((N + 1) * D)"
    by (simp add: zK)
  then have "K < (N + 1) * D"
    by (simp only: of_int_less_iff)
  then have "K + 1 \<le> (N + 1) * D"
    by simp
  then have "(of_int (K + 1) :: rat) \<le> of_int ((N + 1) * D)"
    by (simp only: of_int_le_iff)
  then have "z * of_int D + 1 \<le> (of_int N + 1) * (of_int D :: rat)"
    by (simp add: zK)
  then have hi: "z \<le> of_int N + 1 - 1 / of_int D"
    using dpos by (simp add: field_simps)
  have "(1::rat) / 8589934592 < 1 / of_int D"
    using dpos d33 by (simp add: field_simps)
  moreover have "\<bar>y - r\<bar> \<le> 1 / 17592186044416"
    using assms(4) by simp
  then have "y - r \<le> 1 / 17592186044416" and "- (y - r) \<le> 1 / 17592186044416"
    by (rule abs_le_D1, rule abs_le_D2)
  moreover have "y * 10 + 1 / 2 = z + 10 * (y - r)"
    by (simp add: z_def)
  moreover have "of_int N \<le> Z + 10 * E \<and> Z + 10 * E < of_int N + 1"
    if "of_int N + I \<le> Z" and "Z \<le> of_int N + 1 - I" and "1 / 8589934592 < I"
      and "E \<le> 1 / 17592186044416" and "- E \<le> 1 / 17592186044416" for Z I E :: rat
    using that by linarith
  ultimately have "of_int N \<le> y * 10 + 1 / 2 \<and> y * 10 + 1 / 2 < of_int N + 1"
    using lo hi by simp
  then have "\<lfloor>y * 10 + 1 / 2\<rfloor> = N"
    by (simp only: floor_unique)
  then show ?thesis
    by (simp add: N_def z_def)
qed

lemma fixed_digits_cong:
  assumes "\<lfloor>x * 10 ^ f + 1 / 2\<rfloor> = \<lfloor>x' * 10 ^ f + 1 / 2\<rfloor>"
  shows "fixed_digits f x = fixed_digits f x'"
  using assms by (simp add: fixed_digits_def)

lemma toFixed_small:
  assumes "0 \<le> y" and "y \<le> 201"
  shows "toFixed h f (Fin y) = fixed_digits f y"
  using assms by simp

section \<open>The statistics panel\<close>

text \<open>
  C1. For the empty trade collection \<^verbatim>\<open>updateStats\<close> computes and writes nothing: it
  returns at once, with or without a profile, and the panel keeps what it showed.
\<close>

theorem updateStats_empty:
  "updateStats h (s\<lparr>trades := []\<rparr>) v = Inr v"
  by (simp add: updateStats_def)

lemma count_wins_le: "count_wins ts \<le> length ts"
  by (induction ts) simp_all

lemma count_wins_filter:
  "length (filter (\<lambda>t. fgt (tr_profit t) (Fin 0)) ts) = count_wins ts"
  by (induction ts) simp_all

lemma foldl_sum_from: "foldl (\<lambda>sum t. fadd sum (g t)) acc ts = sum_from acc (map g ts)"
  by (induction ts arbitrary: acc) simp_all

text \<open>What \<^verbatim>\<open>updateStats\<close> writes, in double arithmetic.\<close>

lemma updateStats_double:
  assumes "trades s \<noteq> []" and "currentProfile s = Some p"
  shows "updateStats h s v =
     Inr \<lparr>totalPnL_textContent =
            pf_currency p @ '' '' @ toFixed h 2 (double_sum (map tr_profit (trades s))),
          totalPnL_className =
            (if fge (double_sum (map tr_profit (trades s))) (Fin 0) then ''value positive''
             else ''value negative''),
          totalTrades_textContent = show_nat (length (trades s)),
          winRate_textContent = toFixed h 1 (double_winRate (trades s)) @ ''%'',
          totalVolume_textContent =
            toLocaleString h (double_sum (map tr_volume (trades s)))\<rparr>"
  using assms
  by (simp add: updateStats_def Let_def foldl_sum_from count_wins_filter
      double_sum_def double_winRate_def)

text \<open>
  Whole numbers whose absolute values add up to less than \<open>2\<^sup>5\<^sup>3\<close>: no addition rounds,
  and the double sum is the exact sum.
\<close>

lemma sum_from_whole:
  assumes "list_all is_whole xs" and "is_whole acc"
    and "\<bar>num_value acc\<bar> + sum_list (map (\<lambda>x. \<bar>num_value x\<bar>) xs) < 2 ^ 53"
  shows "sum_from acc xs = Fin (num_value acc + sum_list (map num_value xs))"
  using assms
proof (induction xs arbitrary: acc)
  case Nil
  then show ?case by (cases acc) simp_all
next
  case (Cons x xs)
  obtain a where a: "acc = Fin a" and ia: "of_int \<lfloor>a\<rfloor> = a"
    using Cons.prems(2) by (cases acc) simp_all
  obtain b where b: "x = Fin b" and ib: "of_int \<lfloor>b\<rfloor> = b"
    using Cons.prems(1) by (cases x) simp_all
  have nn: "0 \<le> sum_list (map (\<lambda>x. \<bar>num_value x\<bar>) xs)"
    by (rule sum_list_nonneg) auto
  have ab: "a + b = of_int (\<lfloor>a\<rfloor> + \<lfloor>b\<rfloor>)"
    by (simp only: of_int_add ia ib)
  have "\<bar>a + b\<bar> < 2 ^ 53"
    using Cons.prems(3) nn by (simp add: a b)
  then have "\<bar>(of_int (\<lfloor>a\<rfloor> + \<lfloor>b\<rfloor>) :: rat)\<bar> < of_int (2 ^ 53)"
    by (simp only: ab) simp
  then have "\<bar>\<lfloor>a\<rfloor> + \<lfloor>b\<rfloor>\<bar> < 2 ^ 53"
    by (simp only: of_int_abs [symmetric] of_int_less_iff)
  then have td: "to_double (a + b) = Fin (a + b)"
    using to_double_of_int [of "\<lfloor>a\<rfloor> + \<lfloor>b\<rfloor>"] by (simp only: ab [symmetric])
  have w: "is_whole (Fin (a + b))"
    using ab by simp
  have "\<bar>num_value (Fin (a + b))\<bar> + sum_list (map (\<lambda>x. \<bar>num_value x\<bar>) xs) < 2 ^ 53"
    using Cons.prems(3) by (simp add: a b)
  with Cons.IH [of "Fin (a + b)"] Cons.prems(1) w
  have "sum_from (Fin (a + b)) xs = Fin (a + b + sum_list (map num_value xs))"
    by simp
  then show ?case
    by (simp add: a b td add.assoc)
qed

lemma double_sum_whole:
  assumes "whole_numbers xs"
  shows "double_sum xs = Fin (sum_list (map num_value xs))"
  using sum_from_whole [of xs "Fin 0"] assms
  by (simp add: whole_numbers_def double_sum_def)

text \<open>
  C2, as stated, fails: the sums and the quotient are computed in double arithmetic, and
  the results differ from the exact ones. With 23 winning trades of 80 the exact win
  rate is 28.75, which rounds to 28.8, and the panel shows \<^verbatim>\<open>28.7%\<close>; with the profits
  \<^verbatim>\<open>1e16\<close>, \<open>3\<close> and \<^verbatim>\<open>-1e16\<close> the exact sum is \<open>3\<close>, and the panel shows a total of
  \<^verbatim>\<open>4.00\<close>.
\<close>

theorem updateStats_exact_counterexample:
  "map_sum id winRate_textContent (updateStats demo_host tie_app empty_view) = Inr ''28.7%'' \<and>
   spec_winRate (trades tie_app) = 115 / 4 \<and>
   fixed_digits 1 (spec_winRate (trades tie_app)) = ''28.8'' \<and>
   map_sum id totalPnL_textContent (updateStats demo_host drift_app empty_view) =
     Inr ''USD 4.00'' \<and>
   spec_totalPnL (trades drift_app) = 3"
proof -
  have t: "trades tie_app \<noteq> []" and p: "currentProfile tie_app = Some demo_profile"
    by (simp_all add: tie_app_def)
  have "toFixed demo_host 1 (double_winRate (trades tie_app)) = ''28.7''"
    by code_simp
  then have 1: "map_sum id winRate_textContent (updateStats demo_host tie_app empty_view) =
      Inr ''28.7%''"
    by (simp add: updateStats_double [OF t p])
  have 2: "spec_winRate (trades tie_app) = 115 / 4"
    by code_simp
  have 3: "fixed_digits 1 (spec_winRate (trades tie_app)) = ''28.8''"
    by code_simp
  have 4: "map_sum id totalPnL_textContent (updateStats demo_host drift_app empty_view) =
      Inr ''USD 4.00''"
    by code_simp
  have 5: "spec_totalPnL (trades drift_app) = 3"
    by code_simp
  from 1 2 3 4 5 show ?thesis by simp
qed

text \<open>
  C2, amended. For a non-empty sequence of fewer than \<open>2\<^sup>3\<^sup>2\<close> trades (and the profile
  every such session has) \<^verbatim>\<open>updateStats\<close> writes: the profits added from \<open>0\<close> in the
  order of the sequence, every addition rounded to a double, formatted with two
  decimals after the currency; the count of trades; the count of trades with a profit
  above \<open>0\<close> divided by the count of trades, times 100, both in double arithmetic,
  formatted with one decimal and followed by \<^verbatim>\<open>%\<close>; the volumes added like the profits,
  in the locale's format. A double sum is the exact sum when the numbers are whole and
  their absolute values add up to less than \<open>2\<^sup>5\<^sup>3\<close>. The double win rate is within
  \<open>2\<^sup>-\<^sup>4\<^sup>4\<close> of the exact one, and unless the exact win rate is a rounding tie, its text
  with one decimal is that of the exact win rate.
\<close>

theorem updateStats_nonempty:
  assumes "trades s \<noteq> []" and "currentProfile s = Some p"
    and "length (trades s) < 2 ^ 32"
  shows "updateStats h s v =
     Inr \<lparr>totalPnL_textContent =
            pf_currency p @ '' '' @ toFixed h 2 (double_sum (map tr_profit (trades s))),
          totalPnL_className =
            (if fge (double_sum (map tr_profit (trades s))) (Fin 0) then ''value positive''
             else ''value negative''),
          totalTrades_textContent = show_nat (spec_tradeCount (trades s)),
          winRate_textContent = toFixed h 1 (double_winRate (trades s)) @ ''%'',
          totalVolume_textContent =
            toLocaleString h (double_sum (map tr_volume (trades s)))\<rparr> \<and>
     (whole_numbers (map tr_profit (trades s)) \<longrightarrow>
        double_sum (map tr_profit (trades s)) = Fin (spec_totalPnL (trades s))) \<and>
     (whole_numbers (map tr_volume (trades s)) \<longrightarrow>
        double_sum (map tr_volume (trades s)) = Fin (spec_totalVolume (trades s))) \<and>
     (\<exists>y. double_winRate (trades s) = Fin y \<and>
          \<bar>y - spec_winRate (trades s)\<bar> \<le> 1 / 2 ^ 44) \<and>
     (\<not> rounding_tie 1 (spec_winRate (trades s)) \<longrightarrow>
        toFixed h 1 (double_winRate (trades s)) = fixed_digits 1 (spec_winRate (trades s)))"
proof -
  let ?ts = "trades s"
  have n: "0 < length ?ts"
    using assms(1) by simp
  have 1: "updateStats h s v =
     Inr \<lparr>totalPnL_textContent =
            pf_currency p @ '' '' @ toFixed h 2 (double_sum (map tr_profit ?ts)),
          totalPnL_className =
            (if fge (double_sum (map tr_profit ?ts)) (Fin 0) then ''value positive''
             else ''value negative''),
          totalTrades_textContent = show_nat (spec_tradeCount ?ts),
          winRate_textContent = toFixed h 1 (double_winRate ?ts) @ ''%'',
          totalVolume_textContent = toLocaleString h (double_sum (map tr_volume ?ts))\<rparr>"
    using updateStats_double [OF assms(1,2)] by (simp add: spec_tradeCount_def)
  have 2: "whole_numbers (map tr_profit ?ts) \<longrightarrow>
        double_sum (map tr_profit ?ts) = Fin (spec_totalPnL ?ts)"
    by (simp add: double_sum_whole spec_totalPnL_def comp_def)
  have 3: "whole_numbers (map tr_volume ?ts) \<longrightarrow>
        double_sum (map tr_volume ?ts) = Fin (spec_totalVolume ?ts)"
    by (simp add: double_sum_whole spec_totalVolume_def comp_def)
  obtain y where y: "double_winRate ?ts = Fin y" and y0: "0 \<le> y" and y1: "y \<le> 201"
    and ye: "\<bar>y - spec_winRate ?ts\<bar> \<le> 1 / 2 ^ 44"
    using percent_error [OF count_wins_le n assms(3)]
    unfolding double_winRate_def spec_winRate_def spec_tradeCount_def by blast
  have 4: "\<exists>y. double_winRate ?ts = Fin y \<and> \<bar>y - spec_winRate ?ts\<bar> \<le> 1 / 2 ^ 44"
    using y ye by blast
  have 5: "toFixed h 1 (double_winRate ?ts) = fixed_digits 1 (spec_winRate ?ts)"
    if tie: "\<not> rounding_tie 1 (spec_winRate ?ts)"
  proof -
    have "\<lfloor>y * 10 ^ 1 + 1 / 2\<rfloor> = \<lfloor>spec_winRate ?ts * 10 ^ 1 + 1 / 2\<rfloor>"
    proof (rule nearest_stable [where w = "count_wins ?ts" and n = "length ?ts"])
      show "spec_winRate ?ts = of_int (int (count_wins ?ts)) / of_int (int (length ?ts)) * 100"
        by (simp only: spec_winRate_def spec_tradeCount_def)
    qed (use n assms(3) ye tie in simp_all)
    then have "fixed_digits 1 y = fixed_digits 1 (spec_winRate ?ts)"
      by (rule fixed_digits_cong)
    then show ?thesis
      by (simp only: y toFixed_small [OF y0 y1])
  qed
  from 1 2 3 4 5 show ?thesis by blast
qed

text \<open>
  For the profits \<open>10\<close>, \<open>-3\<close> and \<open>5\<close> the total is the exact sum 12 and the win rate
  shown is 66.7, the exact 200/3 rounded to one decimal; for the profits \<open>10\<close> and \<open>-3\<close>
  the panel shows a total of 7 and a win rate of 50.0.
\<close>

theorem updateStats_nonempty_witness:
  "trades three_trades_app \<noteq> [] \<and> currentProfile three_trades_app = Some demo_profile \<and>
   length (trades three_trades_app) < 2 ^ 32 \<and>
   whole_numbers (map tr_profit (trades three_trades_app)) \<and>
   whole_numbers (map tr_volume (trades three_trades_app)) \<and>
   \<not> rounding_tie 1 (spec_winRate (trades three_trades_app)) \<and>
   updateStats demo_host three_trades_app empty_view =
     Inr \<lparr>totalPnL_textContent = ''USD 12.00'', totalPnL_className = ''value positive'',
          totalTrades_textContent = ''3'', winRate_textContent = ''66.7%'',
          totalVolume_textContent = ''6''\<rparr> \<and>
   double_sum (map tr_profit (trades three_trades_app)) =
     Fin (spec_totalPnL (trades three_trades_app)) \<and>
   spec_totalPnL (trades three_trades_app) = 12 \<and>
   double_sum (map tr_volume (trades three_trades_app)) =
     Fin (spec_totalVolume (trades three_trades_app)) \<and>
   spec_totalVolume (trades three_trades_app) = 6 \<and>
   toFixed demo_host 1 (double_winRate (trades three_trades_app)) =
     fixed_digits 1 (spec_winRate (trades three_trades_app)) \<and>
   spec_winRate (trades three_trades_app) = 200 / 3 \<and>
   fixed_digits 1 (spec_winRate (trades three_trades_app)) = ''66.7'' \<and>
   updateStats demo_host demo_stats_app empty_view =
     Inr \<lparr>totalPnL_textContent = ''USD 7.00'', totalPnL_className = ''value positive'',
          totalTrades_textContent = ''2'', winRate_textContent = ''50.0%'',
          totalVolume_textContent = ''4''\<rparr>"
proof -
  have t: "trades three_trades_app \<noteq> []"
    and p: "currentProfile three_trades_app = Some demo_profile"
    and n: "length (trades three_trades_app) < 2 ^ 32"
    by (simp_all add: three_trades_app_def)
  have w1: "whole_numbers (map tr_profit (trades three_trades_app))"
    and w2: "whole_numbers (map tr_volume (trades three_trades_app))"
    and nt: "\<not> rounding_tie 1 (spec_winRate (trades three_trades_app))"
    by code_simp+
  note inst = updateStats_nonempty [OF t p n, of demo_host empty_view]
  have "updateStats demo_host three_trades_app empty_view =
     Inr \<lparr>totalPnL_textContent =
            pf_currency demo_profile @ '' '' @
              toFixed demo_host 2 (double_sum (map tr_profit (trades three_trades_app))),
          totalPnL_className =
            (if fge (double_sum (map tr_profit (trades three_trades_app))) (Fin 0)
             then ''value positive'' else ''value negative''),
          totalTrades_textContent = show_nat (spec_tradeCount (trades three_trades_app)),
          winRate_textContent =
            toFixed demo_host 1 (double_winRate (trades three_trades_app)) @ ''%'',
          totalVolume_textContent =
            toLocaleString demo_host (double_sum (map tr_volume (trades three_trades_app)))\<rparr>"
    using inst by (rule conjunct1)
  also have "\<dots> =
     Inr \<lparr>totalPnL_textContent = ''USD 12.00'', totalPnL_className = ''value positive'',
          totalTrades_textContent = ''3'', winRate_textContent = ''66.7%'',
          totalVolume_textContent = ''6''\<rparr>"
    by code_simp
  finally have 1: "updateStats demo_host three_trades_app empty_view =
     Inr \<lparr>totalPnL_textContent = ''USD 12.00'', totalPnL_className = ''value positive'',
          totalTrades_textContent = ''3'', winRate_textContent = ''66.7%'',
          totalVolume_textContent = ''6''\<rparr>" .
  have 2: "double_sum (map tr_profit (trades three_trades_app)) =
     Fin (spec_totalPnL (trades three_trades_app))"
    and 3: "double_sum (map tr_volume (trades three_trades_app)) =
     Fin (spec_totalVolume (trades three_trades_app))"
    and 4: "toFixed demo_host 1 (double_winRate (trades three_trades_app)) =
     fixed_digits 1 (spec_winRate (trades three_trades_app))"
    using inst w1 w2 nt by blast+
  have 5: "spec_totalPnL (trades three_trades_app) = 12"
    and 6: "spec_totalVolume (trades three_trades_app) = 6"
    and 7: "spec_winRate (trades three_trades_app) = 200 / 3"
    and 8: "fixed_digits 1 (spec_winRate (trades three_trades_app)) = ''66.7''"
    by code_simp+
  have 9: "updateStats demo_host demo_stats_app empty_view =
     Inr \<lparr>totalPnL_textContent = ''USD 7.00'', totalPnL_className = ''value positive'',
          totalTrades_textContent = ''2'', winRate_textContent = ''50.0%'',
          totalVolume_textContent = ''4''\<rparr>"
    by code_simp
  show ?thesis
    by (intro conjI t p n w1 w2 nt 1 2 3 4 5 6 7 8 9)
qed

section \<open>Storage errors\<close>

text \<open>
  C3, as stated, fails: a storage error of the account-list read and of the trade-list
  read does not reach the caller. With an engine that rejects every statement, the
  queries fail and \<^verbatim>\<open>loadAccounts\<close> and \<^verbatim>\<open>loadTrades\<close> return normally, the session
  unchanged.
\<close>

theorem read_errors_swallowed_counterexample:
  "select_accounts broken_conn = Inl (StorageError ''database is locked'') \<and>
   loadAccounts broken_app = Inr broken_app \<and>
   select_trades 1 broken_conn = Inl (StorageError ''database is locked'') \<and>
   loadTrades 1 broken_app = Inr broken_app"
  by (simp add: loadAccounts_def loadAccounts_try_def loadTrades_def loadTrades_try_def
      select_accounts_def select_trades_def broken_app_def broken_conn_def empty_conn_def
      initial_app_def)

text \<open>
  C3, amended. When the engine rejects a statement with an error \<open>e\<close>, the three write
  operations \<^verbatim>\<open>saveProfile\<close>, \<^verbatim>\<open>saveAccount\<close> and \<^verbatim>\<open>saveTrade\<close> fail with exactly
  \<open>e\<close>; the read operations \<^verbatim>\<open>loadAccounts\<close> and \<^verbatim>\<open>loadTrades\<close> catch it and return
  normally, leaving the loaded collections as they were; \<^verbatim>\<open>loadProfile\<close> returns the
  absent profile, as it does on a working engine whose table has no row with key 1.
\<close>

theorem store_error_propagation:
  assumes "db s = Some c" and "has_execute c" and "fault c = Some e"
  shows "saveProfile p s = Inl e \<and> saveAccount a s = Inl e \<and> saveTrade t s = Inl e \<and>
         loadAccounts s = Inr s \<and> loadTrades i s = Inr s \<and> loadProfile s = Inr None \<and>
         loadProfile (s\<lparr>db := Some (c\<lparr>fault := None,
             profile_tbl := filter (\<lambda>r. p_id r \<noteq> 1) (profile_tbl c)\<rparr>)\<rparr>) = Inr None"
proof -
  have "saveProfile p s = Inl e"
    using assms by (simp add: saveProfile_def saveProfile_try_def insert_or_replace_profile_def)
  moreover have "saveAccount a s = Inl e"
    using assms by (simp add: saveAccount_def insert_account_def)
  moreover have "saveTrade t s = Inl e"
    using assms by (simp add: saveTrade_def insert_trade_def)
  moreover have "loadAccounts s = Inr s"
    using assms by (simp add: loadAccounts_def loadAccounts_try_def select_accounts_def)
  moreover have "loadTrades i s = Inr s"
    using assms by (simp add: loadTrades_def loadTrades_try_def select_trades_def)
  moreover have "loadProfile s = Inr None"
    using assms by (simp add: loadProfile_def loadProfile_try_def select_profile_def)
  moreover have "loadProfile (s\<lparr>db := Some (c\<lparr>fault := None,
             profile_tbl := filter (\<lambda>r. p_id r \<noteq> 1) (profile_tbl c)\<rparr>)\<rparr>) = Inr None"
    by (simp add: loadProfile_def loadProfile_try_def select_profile_def)
  ultimately show ?thesis by blast
qed

theorem store_error_propagation_witness:
  "db broken_app = Some broken_conn \<and> has_execute broken_conn \<and>
   fault broken_conn = Some (StorageError ''database is locked'') \<and>
   saveProfile demo_profile broken_app = Inl (StorageError ''database is locked'') \<and>
   saveAccount (account_of_form demo_account_form) broken_app =
     Inl (StorageError ''database is locked'') \<and>
   saveTrade (trade_of_form 1 ''2024-05-01T10:00:00.000Z'' demo_trade_form) broken_app =
     Inl (StorageError ''database is locked'') \<and>
   loadAccounts broken_app = Inr broken_app \<and>
   loadTrades 1 broken_app = Inr broken_app \<and>
   loadProfile broken_app = Inr None \<and>
   loadProfile (broken_app\<lparr>db := Some empty_conn\<rparr>) = Inr None"
proof -
  have a: "db broken_app = Some broken_conn"
    by (simp add: broken_app_def initial_app_def)
  have b: "has_execute broken_conn"
    by (simp add: broken_conn_def empty_conn_def)
  have c: "fault broken_conn = Some (StorageError ''database is locked'')"
    by (simp add: broken_conn_def)
  have d: "broken_conn\<lparr>fault := None,
             profile_tbl := filter (\<lambda>r. p_id r \<noteq> 1) (profile_tbl broken_conn)\<rparr> = empty_conn"
    by (simp add: broken_conn_def empty_conn_def)
  show ?thesis
    using store_error_propagation [OF a b c, of demo_profile
        "account_of_form demo_account_form"
        "trade_of_form 1 ''2024-05-01T10:00:00.000Z'' demo_trade_form" 1] a b c
    by (simp only: d simp_thms)
qed

section \<open>The profile table\<close>

lemma saveProfile_ok:
  assumes "db s = Some c" and "has_execute c" and "fault c = None"
  shows "saveProfile p s =
     Inr (\<lparr>rowsAffected = 1, lastInsertId = 1\<rparr>,
          s\<lparr>db := Some (c\<lparr>profile_tbl :=
            filter (\<lambda>x. p_id x \<noteq> 1) (profile_tbl c) @ [profile_params p]\<rparr>)\<rparr>)"
  using assms
  by (simp add: saveProfile_def saveProfile_try_def insert_or_replace_profile_def
      profile_params_def)

lemma loadProfile_after:
  assumes "fault c = None"
  shows "loadProfile (s\<lparr>db := Some (c\<lparr>profile_tbl :=
            filter (\<lambda>x. p_id x \<noteq> 1) rows @ [profile_params p]\<rparr>)\<rparr>) = Inr (Some p)"
  using assms
  by (simp add: loadProfile_def loadProfile_try_def select_profile_def profile_params_def)

text \<open>
  C4 does not hold of the program. Start-up on a working engine with empty tables runs
  \<^verbatim>\<open>testDatabase\<close>, which writes a row with key 999 to \<^verbatim>\<open>profile\<close> and leaves it
  there; the first submission of the profile form then adds the row with key 1, and the
  table holds two rows.
\<close>

theorem startup_then_save_profile:
  "domContentLoaded demo_host (Some empty_conn) initial_app empty_view =
     Inr (started_app, empty_view) \<and>
   (\<exists>s c. setupProfileForm_submit demo_profile_form started_app = (Quiet, s) \<and>
      db s = Some c \<and> map p_id (profile_tbl c) = [999, 1] \<and> length (profile_tbl c) = 2)"
  by (simp add: domContentLoaded_def init_def initDB_def loadProfile_def loadProfile_try_def
      select_profile_def testDatabase_def select_one_def insert_or_replace_profile_def
      setupProfileForm_submit_def saveProfile_def saveProfile_try_def loadAccounts_def
      loadAccounts_try_def select_accounts_def order_by_desc_def profile_of_form_def
      started_app_def initial_app_def empty_conn_def demo_profile_form_def profile_params_def)

text \<open>
  C6. On a working engine, \<^verbatim>\<open>loadProfile\<close> after \<^verbatim>\<open>saveProfile\<close> of a profile \<open>p\<close>
  returns exactly \<open>p\<close>; after a second \<^verbatim>\<open>saveProfile\<close>, of \<open>q\<close>, it returns \<open>q\<close>, and
  the only row with key 1 left in the table is the one of \<open>q\<close>.
\<close>

theorem profile_roundtrip:
  assumes "db s = Some c" and "has_execute c" and "fault c = None"
  shows "\<exists>r1 s1 r2 s2 c2.
     saveProfile p s = Inr (r1, s1) \<and> loadProfile s1 = Inr (Some p) \<and>
     saveProfile q s1 = Inr (r2, s2) \<and> loadProfile s2 = Inr (Some q) \<and>
     db s2 = Some c2 \<and>
     filter (\<lambda>r. p_id r = 1) (profile_tbl c2) = [profile_params q]"
proof -
  let ?c1 = "c\<lparr>profile_tbl :=
            filter (\<lambda>x. p_id x \<noteq> 1) (profile_tbl c) @ [profile_params p]\<rparr>"
  let ?s1 = "s\<lparr>db := Some ?c1\<rparr>"
  let ?c2 = "?c1\<lparr>profile_tbl :=
            filter (\<lambda>x. p_id x \<noteq> 1) (profile_tbl ?c1) @ [profile_params q]\<rparr>"
  let ?s2 = "?s1\<lparr>db := Some ?c2\<rparr>"
  have 1: "saveProfile p s = Inr (\<lparr>rowsAffected = 1, lastInsertId = 1\<rparr>, ?s1)"
    by (rule saveProfile_ok [OF assms])
  have c1: "db ?s1 = Some ?c1" "has_execute ?c1" "fault ?c1 = None"
    using assms by simp_all
  have 2: "loadProfile ?s1 = Inr (Some p)"
    by (rule loadProfile_after [OF assms(3)])
  have 3: "saveProfile q ?s1 = Inr (\<lparr>rowsAffected = 1, lastInsertId = 1\<rparr>, ?s2)"
    by (rule saveProfile_ok [OF c1])
  have 4: "loadProfile ?s2 = Inr (Some q)"
    using loadProfile_after [OF c1(3), where s = "?s1" and rows = "profile_tbl ?c1" and p = q]
    by simp
  have 5: "db ?s2 = Some ?c2" by simp
  have 6: "filter (\<lambda>r. p_id r = 1) (profile_tbl ?c2) = [profile_params q]"
    by (simp add: profile_params_def)
  from 1 2 3 4 5 6 show ?thesis by blast
qed

theorem profile_roundtrip_witness:
  "db fresh_app = Some empty_conn \<and> has_execute empty_conn \<and> fault empty_conn = None \<and>
   (\<exists>r1 s1 r2 s2 c2.
     saveProfile demo_profile fresh_app = Inr (r1, s1) \<and>
     loadProfile s1 = Inr (Some demo_profile) \<and>
     saveProfile other_profile s1 = Inr (r2, s2) \<and>
     loadProfile s2 = Inr (Some other_profile) \<and>
     db s2 = Some c2 \<and>
     filter (\<lambda>r. p_id r = 1) (profile_tbl c2) = [profile_params other_profile])"
proof -
  have a: "db fresh_app = Some empty_conn"
    by (simp add: fresh_app_def initial_app_def)
  have b: "has_execute empty_conn" and c: "fault empty_conn = None"
    by (simp_all add: empty_conn_def)
  from profile_roundtrip [OF a b c, of demo_profile other_profile] a b c
  show ?thesis by (simp only: simp_thms)
qed

section \<open>Listing the trades of an account\<close>

lemma loadTrades_ok:
  assumes "db s = Some c" and "fault c = None"
  shows "loadTrades i s =
     Inr (s\<lparr>trades := map trade_of_row
            (order_by_desc t_date (filter (\<lambda>r. t_account_id r = i) (trades_tbl c)))\<rparr>)"
  using assms by (simp add: loadTrades_def loadTrades_try_def select_trades_def)


lemma set_order_by_desc: "set (order_by_desc k rows) = set rows"
  by (simp add: order_by_desc_def)




section \<open>Creating accounts and trades\<close>

lemma saveAccount_ok:
  assumes "db s = Some c" and "has_execute c" and "fault c = None"
  shows "saveAccount a s =
     Inr (s\<lparr>db := Some (c\<lparr>accounts_tbl := accounts_tbl c @
            [account_params a (next_id (map a_id (accounts_tbl c)))]\<rparr>)\<rparr>)"
  using assms by (simp add: saveAccount_def insert_account_def Let_def)

lemma loadAccounts_ok:
  assumes "db s = Some c" and "fault c = None"
  shows "loadAccounts s =
     Inr (s\<lparr>accounts := map account_of_row (order_by_desc a_id (accounts_tbl c))\<rparr>)"
  using assms by (simp add: loadAccounts_def loadAccounts_try_def select_accounts_def)

text \<open>
  C8. On a working engine the account form is saved whatever its balance field holds:
  \<^verbatim>\<open>saveAccount\<close> succeeds and appends one row, whose \<^verbatim>\<open>initial_balance\<close> is
  \<^verbatim>\<open>parseFloat\<close> of the field and whose \<^verbatim>\<open>current_balance\<close> is the same value, and
  the submit handler ends without an alert. For a field that is no number both are
  \<open>NaN\<close>.
\<close>

theorem account_form_not_validated:
  assumes "db s = Some c" and "has_execute c" and "fault c = None"
  shows "\<exists>row s'.
     saveAccount (account_of_form f) s =
       Inr (s\<lparr>db := Some (c\<lparr>accounts_tbl := accounts_tbl c @ [row]\<rparr>)\<rparr>) \<and>
     a_initial_balance row = parseFloat (initialBalance f) \<and>
     a_current_balance row = a_initial_balance row \<and>
     setupAccountForm_submit f s = (Quiet, s') \<and>
     db s' = Some (c\<lparr>accounts_tbl := accounts_tbl c @ [row]\<rparr>)"
proof -
  let ?row = "account_params (account_of_form f) (next_id (map a_id (accounts_tbl c)))"
  let ?c1 = "c\<lparr>accounts_tbl := accounts_tbl c @ [?row]\<rparr>"
  let ?s1 = "s\<lparr>db := Some ?c1\<rparr>"
  let ?s2 = "?s1\<lparr>accounts := map account_of_row (order_by_desc a_id (accounts_tbl ?c1))\<rparr>"
  have 1: "saveAccount (account_of_form f) s = Inr ?s1"
    by (rule saveAccount_ok [OF assms])
  have c1: "db ?s1 = Some ?c1" "fault ?c1 = None"
    using assms by simp_all
  have 2: "loadAccounts ?s1 = Inr ?s2"
    by (rule loadAccounts_ok [OF c1])
  have 3: "setupAccountForm_submit f s = (Quiet, ?s2)"
    by (simp add: setupAccountForm_submit_def 1 2)
  have 4: "a_initial_balance ?row = parseFloat (initialBalance f)"
    and 5: "a_current_balance ?row = a_initial_balance ?row"
    by (simp_all add: account_params_def account_of_form_def)
  have 6: "db ?s2 = Some ?c1" by simp
  from 1 3 4 5 6 show ?thesis by blast
qed

text \<open>With the balance \<^verbatim>\<open>abc\<close> the row is stored, both balances \<open>NaN\<close>.\<close>

theorem account_form_not_validated_witness:
  "db fresh_app = Some empty_conn \<and> has_execute empty_conn \<and> fault empty_conn = None \<and>
   (\<exists>row s'.
     saveAccount (account_of_form bad_account_form) fresh_app =
       Inr (fresh_app\<lparr>db := Some (empty_conn\<lparr>accounts_tbl :=
              accounts_tbl empty_conn @ [row]\<rparr>)\<rparr>) \<and>
     a_initial_balance row = parseFloat (initialBalance bad_account_form) \<and>
     a_current_balance row = a_initial_balance row \<and>
     setupAccountForm_submit bad_account_form fresh_app = (Quiet, s') \<and>
     db s' = Some (empty_conn\<lparr>accounts_tbl := accounts_tbl empty_conn @ [row]\<rparr>)) \<and>
   saveAccount (account_of_form bad_account_form) fresh_app =
     Inr (fresh_app\<lparr>db := Some (empty_conn\<lparr>accounts_tbl :=
       [\<lparr>a_id = 1, a_name = ''Main'', a_type = ''live'', a_initial_balance = NaN,
         a_current_balance = NaN, a_broker = ''X'', a_leverage = ''1:50'',
         a_instruments = []\<rparr>]\<rparr>)\<rparr>)"
proof -
  have a: "db fresh_app = Some empty_conn"
    by (simp add: fresh_app_def initial_app_def)
  have b: "has_execute empty_conn" and c: "fault empty_conn = None"
    by (simp_all add: empty_conn_def)
  have d: "saveAccount (account_of_form bad_account_form) fresh_app =
     Inr (fresh_app\<lparr>db := Some (empty_conn\<lparr>accounts_tbl :=
       [\<lparr>a_id = 1, a_name = ''Main'', a_type = ''live'', a_initial_balance = NaN,
         a_current_balance = NaN, a_broker = ''X'', a_leverage = ''1:50'',
         a_instruments = []\<rparr>]\<rparr>)\<rparr>)"
    by code_simp
  from account_form_not_validated [OF a b c, of bad_account_form] a b c d
  show ?thesis by (simp only: simp_thms)
qed

lemma saveTrade_ok:
  assumes "db s = Some c" and "has_execute c" and "fault c = None"
  shows "saveTrade t s =
     Inr (s\<lparr>db := Some (c\<lparr>trades_tbl := trades_tbl c @
            [trade_params t (next_id (map t_id (trades_tbl c)))]\<rparr>)\<rparr>)"
  using assms by (simp add: saveTrade_def insert_trade_def Let_def)

text \<open>
  The submit handler of the trade form on a working engine, with an account selected:
  the trade is appended to the table and the trades of the account are loaded again;
  only the notice and the panel depend on \<^verbatim>\<open>updateStats\<close>.
\<close>

lemma trade_submit_ok:
  assumes "db s = Some c" and "has_execute c" and "fault c = None"
    and "currentAccount s = Some a"
  shows "\<exists>n v'. setupTradeForm_submit h now f s v =
     (n,
      s\<lparr>db := Some (c\<lparr>trades_tbl := trades_tbl c @
            [trade_params (trade_of_form (acc_id a) now f) (next_id (map t_id (trades_tbl c)))]\<rparr>),
        trades := map trade_of_row (order_by_desc t_date
          (filter (\<lambda>r. t_account_id r = acc_id a)
            (trades_tbl c @
              [trade_params (trade_of_form (acc_id a) now f)
                 (next_id (map t_id (trades_tbl c)))])))\<rparr>,
      v')"
proof -
  let ?row = "trade_params (trade_of_form (acc_id a) now f) (next_id (map t_id (trades_tbl c)))"
  let ?c1 = "c\<lparr>trades_tbl := trades_tbl c @ [?row]\<rparr>"
  let ?s1 = "s\<lparr>db := Some ?c1\<rparr>"
  let ?s2 = "?s1\<lparr>trades := map trade_of_row (order_by_desc t_date
          (filter (\<lambda>r. t_account_id r = acc_id a) (trades_tbl ?c1)))\<rparr>"
  have 1: "saveTrade (trade_of_form (acc_id a) now f) s = Inr ?s1"
    by (rule saveTrade_ok [OF assms(1-3)])
  have c1: "db ?s1 = Some ?c1" "fault ?c1 = None"
    using assms by simp_all
  have 2: "loadTrades (acc_id a) ?s1 = Inr ?s2"
    by (rule loadTrades_ok [OF c1])
  have "\<exists>n v'. setupTradeForm_submit h now f s v = (n, ?s2, v')"
    by (cases "updateStats h ?s2 v")
       (simp_all add: setupTradeForm_submit_def assms(4) 1 2)
  then show ?thesis by simp
qed

lemma parseFloat_empty: "parseFloat [] = NaN"
  by (simp add: parseFloat_def)

text \<open>
  C5. On a working engine with an account selected, the trade form is saved and loaded
  back with these two fields, each on its own, whatever the other holds. An exit price
  field with nothing \<^verbatim>\<open>parseFloat\<close> can read (an empty field among them) is stored as the
  absent value, and the trade loaded back has an absent \<^verbatim>\<open>exitPrice\<close> (\<open>None\<close>: neither
  a number nor a string). A commission field that is no number is stored as \<open>0\<close> and
  loaded back as \<open>0\<close>. A field that parses to a number other than \<open>0\<close> is stored and
  loaded back as that number.
\<close>

theorem trade_form_defaults:
  assumes "db s = Some c" and "has_execute c" and "fault c = None"
    and "currentAccount s = Some a"
  shows "\<exists>n s' v' row t.
     setupTradeForm_submit h now f s v = (n, s', v') \<and>
     db s' = Some (c\<lparr>trades_tbl := trades_tbl c @ [row]\<rparr>) \<and>
     t \<in> set (trades s') \<and> tr_id t = t_id row \<and> tr_date t = now \<and>
     tr_exitPrice t = t_exit_price row \<and> tr_commission t = t_commission row \<and>
     (exitPrice f = [] \<longrightarrow> t_exit_price row = None) \<and>
     (parseFloat (exitPrice f) = NaN \<longrightarrow> t_exit_price row = None) \<and>
     (parseFloat (commission f) = NaN \<longrightarrow> t_commission row = Fin 0) \<and>
     (truthy (parseFloat (exitPrice f)) \<longrightarrow>
        t_exit_price row = Some (parseFloat (exitPrice f))) \<and>
     (truthy (parseFloat (commission f)) \<longrightarrow>
        t_commission row = parseFloat (commission f))"
proof -
  let ?row = "trade_params (trade_of_form (acc_id a) now f) (next_id (map t_id (trades_tbl c)))"
  let ?c1 = "c\<lparr>trades_tbl := trades_tbl c @ [?row]\<rparr>"
  let ?s2 = "s\<lparr>db := Some ?c1, trades := map trade_of_row (order_by_desc t_date
          (filter (\<lambda>r. t_account_id r = acc_id a) (trades_tbl c @ [?row])))\<rparr>"
  obtain n v' where 1: "setupTradeForm_submit h now f s v = (n, ?s2, v')"
    using trade_submit_ok [OF assms] by blast
  have 2: "db ?s2 = Some ?c1" by simp
  have "t_account_id ?row = acc_id a"
    by (simp add: trade_params_def trade_of_form_def)
  then have 3: "trade_of_row ?row \<in> set (trades ?s2)"
    by (simp add: set_order_by_desc)
  have 4: "tr_id (trade_of_row ?row) = t_id ?row" "tr_date (trade_of_row ?row) = now"
    "tr_exitPrice (trade_of_row ?row) = t_exit_price ?row"
    "tr_commission (trade_of_row ?row) = t_commission ?row"
    by (simp_all add: trade_of_row_def trade_params_def trade_of_form_def)
  have 5: "exitPrice f = [] \<longrightarrow> t_exit_price ?row = None"
    "parseFloat (exitPrice f) = NaN \<longrightarrow> t_exit_price ?row = None"
    "parseFloat (commission f) = NaN \<longrightarrow> t_commission ?row = Fin 0"
    "truthy (parseFloat (exitPrice f)) \<longrightarrow> t_exit_price ?row = Some (parseFloat (exitPrice f))"
    "truthy (parseFloat (commission f)) \<longrightarrow> t_commission ?row = parseFloat (commission f)"
    by (simp_all add: trade_params_def trade_of_form_def parseFloat_empty)
  from 1 2 3 4 5 show ?thesis by blast
qed

text \<open>
  With no exit price and the commission \<^verbatim>\<open>2.5\<close>, the trade loaded back has no exit
  price and the commission 2.5; with the exit price \<^verbatim>\<open>1.75\<close> and the commission
  \<^verbatim>\<open>abc\<close>, it has the exit price 1.75 and the commission \<open>0\<close>.
\<close>

theorem trade_form_defaults_witness:
  "db trading_app = Some trading_conn \<and> has_execute trading_conn \<and>
   fault trading_conn = None \<and> currentAccount trading_app = Some demo_account \<and>
   exitPrice blank_exit_form = [] \<and>
   parseFloat (exitPrice blank_exit_form) = NaN \<and>
   parseFloat (commission blank_exit_form) = Fin (5 / 2) \<and>
   (\<exists>n s' v' row t.
     setupTradeForm_submit demo_host ''2024-05-01T10:00:00.000Z'' blank_exit_form
       trading_app empty_view = (n, s', v') \<and>
     db s' = Some (trading_conn\<lparr>trades_tbl := trades_tbl trading_conn @ [row]\<rparr>) \<and>
     t \<in> set (trades s') \<and> tr_id t = t_id row \<and>
     t_exit_price row = None \<and> tr_exitPrice t = None \<and>
     t_commission row = Fin (5 / 2) \<and> tr_commission t = Fin (5 / 2)) \<and>
   parseFloat (exitPrice bad_commission_form) = Fin (7 / 4) \<and>
   parseFloat (commission bad_commission_form) = NaN \<and>
   (\<exists>n s' v' row t.
     setupTradeForm_submit demo_host ''2024-05-01T10:00:00.000Z'' bad_commission_form
       trading_app empty_view = (n, s', v') \<and>
     db s' = Some (trading_conn\<lparr>trades_tbl := trades_tbl trading_conn @ [row]\<rparr>) \<and>
     t \<in> set (trades s') \<and> tr_id t = t_id row \<and>
     t_exit_price row = Some (Fin (7 / 4)) \<and> tr_exitPrice t = Some (Fin (7 / 4)) \<and>
     t_commission row = Fin 0 \<and> tr_commission t = Fin 0) \<and>
   map (\<lambda>t. (tr_id t, tr_exitPrice t, tr_commission t))
     (trades (fst (snd (setupTradeForm_submit demo_host ''2024-05-01T10:00:00.000Z''
        blank_exit_form trading_app empty_view)))) = [(1, None, Fin (5 / 2))] \<and>
   map (\<lambda>t. (tr_id t, tr_exitPrice t, tr_commission t))
     (trades (fst (snd (setupTradeForm_submit demo_host ''2024-05-01T10:00:00.000Z''
        bad_commission_form trading_app empty_view)))) = [(1, Some (Fin (7 / 4)), Fin 0)]"
proof -
  have a: "db trading_app = Some trading_conn"
    and d: "currentAccount trading_app = Some demo_account"
    by (simp_all add: trading_app_def)
  have b: "has_execute trading_conn" and c: "fault trading_conn = None"
    by (simp_all add: trading_conn_def empty_conn_def)
  have e0: "exitPrice blank_exit_form = []"
    by (simp add: blank_exit_form_def demo_trade_form_def)
  have e1: "parseFloat (exitPrice blank_exit_form) = NaN"
    and f1: "parseFloat (commission blank_exit_form) = Fin (5 / 2)"
    and e2: "parseFloat (exitPrice bad_commission_form) = Fin (7 / 4)"
    and f2: "parseFloat (commission bad_commission_form) = NaN"
    by code_simp+
  have g1: "map (\<lambda>t. (tr_id t, tr_exitPrice t, tr_commission t))
     (trades (fst (snd (setupTradeForm_submit demo_host ''2024-05-01T10:00:00.000Z''
        blank_exit_form trading_app empty_view)))) = [(1, None, Fin (5 / 2))]"
    by code_simp
  have g2: "map (\<lambda>t. (tr_id t, tr_exitPrice t, tr_commission t))
     (trades (fst (snd (setupTradeForm_submit demo_host ''2024-05-01T10:00:00.000Z''
        bad_commission_form trading_app empty_view)))) = [(1, Some (Fin (7 / 4)), Fin 0)]"
    by code_simp
  have h1: "\<exists>n s' v' row t.
     setupTradeForm_submit demo_host ''2024-05-01T10:00:00.000Z'' blank_exit_form
       trading_app empty_view = (n, s', v') \<and>
     db s' = Some (trading_conn\<lparr>trades_tbl := trades_tbl trading_conn @ [row]\<rparr>) \<and>
     t \<in> set (trades s') \<and> tr_id t = t_id row \<and>
     t_exit_price row = None \<and> tr_exitPrice t = None \<and>
     t_commission row = Fin (5 / 2) \<and> tr_commission t = Fin (5 / 2)"
    using trade_form_defaults [OF a b c d, of demo_host
      "''2024-05-01T10:00:00.000Z''" blank_exit_form empty_view]
    by (simp add: e1 f1) fastforce
  have h2: "\<exists>n s' v' row t.
     setupTradeForm_submit demo_host ''2024-05-01T10:00:00.000Z'' bad_commission_form
       trading_app empty_view = (n, s', v') \<and>
     db s' = Some (trading_conn\<lparr>trades_tbl := trades_tbl trading_conn @ [row]\<rparr>) \<and>
     t \<in> set (trades s') \<and> tr_id t = t_id row \<and>
     t_exit_price row = Some (Fin (7 / 4)) \<and> tr_exitPrice t = Some (Fin (7 / 4)) \<and>
     t_commission row = Fin 0 \<and> tr_commission t = Fin 0"
    using trade_form_defaults [OF a b c d, of demo_host
      "''2024-05-01T10:00:00.000Z''" bad_commission_form empty_view]
    by (simp add: e2 f2) fastforce
  from a b c d e0 e1 f1 e2 f2 g1 g2 h1 h2 show ?thesis
    by (simp only: simp_thms)
qed

lemma trade_of_form_zero_exit:
  assumes "parseFloat (exitPrice f) = Fin 0"
  shows "trade_of_form i now f = trade_of_form i now (f\<lparr>exitPrice := []\<rparr>)"
  using assms by (simp add: trade_of_form_def parseFloat_empty)

text \<open>
  C9. When the exit price field parses to exactly \<open>0\<close>, the row written has an absent
  \<^verbatim>\<open>exit_price\<close>, not the number \<open>0\<close>, and the handler ends exactly as it does with
  the exit price field left empty: the same notice, the same session and table, the
  same panel.
\<close>

theorem trade_form_zero_exit_price:
  assumes "db s = Some c" and "has_execute c" and "fault c = None"
    and "currentAccount s = Some a"
    and "parseFloat (exitPrice f) = Fin 0"
  shows "\<exists>n s' v' row.
     setupTradeForm_submit h now f s v = (n, s', v') \<and>
     db s' = Some (c\<lparr>trades_tbl := trades_tbl c @ [row]\<rparr>) \<and>
     t_exit_price row = None \<and> t_date row = now \<and>
     setupTradeForm_submit h now (f\<lparr>exitPrice := []\<rparr>) s v = (n, s', v')"
proof -
  let ?row = "trade_params (trade_of_form (acc_id a) now f) (next_id (map t_id (trades_tbl c)))"
  let ?c1 = "c\<lparr>trades_tbl := trades_tbl c @ [?row]\<rparr>"
  let ?s2 = "s\<lparr>db := Some ?c1, trades := map trade_of_row (order_by_desc t_date
          (filter (\<lambda>r. t_account_id r = acc_id a) (trades_tbl c @ [?row])))\<rparr>"
  obtain n v' where 1: "setupTradeForm_submit h now f s v = (n, ?s2, v')"
    using trade_submit_ok [OF assms(1-4)] by blast
  have 2: "db ?s2 = Some ?c1" by simp
  have 3: "t_exit_price ?row = None" "t_date ?row = now"
    using assms(5) by (simp_all add: trade_params_def trade_of_form_def)
  have "setupTradeForm_submit h now (f\<lparr>exitPrice := []\<rparr>) s v =
        setupTradeForm_submit h now f s v"
    by (simp add: setupTradeForm_submit_def assms(4)
        trade_of_form_zero_exit [OF assms(5), symmetric])
  with 1 have 4: "setupTradeForm_submit h now (f\<lparr>exitPrice := []\<rparr>) s v = (n, ?s2, v')"
    by simp
  from 1 2 3 4 show ?thesis by blast
qed

text \<open>With the exit price \<^verbatim>\<open>0\<close>, the one trade loaded back has no exit price.\<close>

theorem trade_form_zero_exit_price_witness:
  "db trading_app = Some trading_conn \<and> has_execute trading_conn \<and>
   fault trading_conn = None \<and> currentAccount trading_app = Some demo_account \<and>
   parseFloat (exitPrice zero_exit_form) = Fin 0 \<and>
   (\<exists>n s' v' row.
     setupTradeForm_submit demo_host ''2024-05-01T10:00:00.000Z'' zero_exit_form
       trading_app empty_view = (n, s', v') \<and>
     db s' = Some (trading_conn\<lparr>trades_tbl := trades_tbl trading_conn @ [row]\<rparr>) \<and>
     t_exit_price row = None \<and> t_date row = ''2024-05-01T10:00:00.000Z'' \<and>
     setupTradeForm_submit demo_host ''2024-05-01T10:00:00.000Z''
       (zero_exit_form\<lparr>exitPrice := []\<rparr>) trading_app empty_view = (n, s', v')) \<and>
   map tr_exitPrice
     (trades (fst (snd (setupTradeForm_submit demo_host ''2024-05-01T10:00:00.000Z''
        zero_exit_form trading_app empty_view)))) = [None]"
proof -
  have a: "db trading_app = Some trading_conn"
    and d: "currentAccount trading_app = Some demo_account"
    by (simp_all add: trading_app_def)
  have b: "has_execute trading_conn" and c: "fault trading_conn = None"
    by (simp_all add: trading_conn_def empty_conn_def)
  have e: "parseFloat (exitPrice zero_exit_form) = Fin 0"
    by code_simp
  have g: "map tr_exitPrice
     (trades (fst (snd (setupTradeForm_submit demo_host ''2024-05-01T10:00:00.000Z''
        zero_exit_form trading_app empty_view)))) = [None]"
    by code_simp
  from trade_form_zero_exit_price [OF a b c d e, of demo_host
      "''2024-05-01T10:00:00.000Z''" empty_view] a b c d e g
  show ?thesis by (simp only: simp_thms)
qed

section \<open>The risk/reward ratio\<close>

text \<open>
  C10, as stated, fails where it says that equal entry and stop prices give
  \<^verbatim>\<open>1:Infinity\<close>: with all three prices \<^verbatim>\<open>1\<close> the reward is zero as well, the quotient
  is \<open>0 / 0\<close>, and the ratio written is \<^verbatim>\<open>1:NaN\<close>.
\<close>

theorem calculateRR_equal_prices_counterexample:
  "parseFloat (entryPrice equal_prices_form) = Fin 1 \<and>
   parseFloat (stopLoss equal_prices_form) = Fin 1 \<and>
   parseFloat (takeProfit equal_prices_form) = Fin 1 \<and>
   rrRatio (calculateRR demo_host equal_prices_form) = ''1:NaN'' \<and>
   rrRatio (calculateRR demo_host equal_prices_form) \<noteq> ''1:Infinity''"
  by code_simp

text \<open>
  C10, amended. \<^verbatim>\<open>calculateRR\<close> leaves the form as it is unless the entry price, the
  take profit and the stop loss all parse to numbers other than \<open>0\<close> and \<open>NaN\<close>. Then
  it sets \<^verbatim>\<open>rrRatio\<close> to \<^verbatim>\<open>1:\<close> followed by \<^verbatim>\<open>toFixed(2)\<close> of
  \<open>|tp - entry| / |entry - sl|\<close>. The division is not guarded: for a finite entry price
  equal to the stop loss the ratio is \<^verbatim>\<open>1:Infinity\<close> when the take profit differs from
  the entry price, and \<^verbatim>\<open>1:NaN\<close> when it equals it.
\<close>

theorem calculateRR_cases:
  "calculateRR h f =
     (let entry = parseFloat (entryPrice f);
          tp = parseFloat (takeProfit f);
          sl = parseFloat (stopLoss f)
      in if \<not> (truthy entry \<and> truthy tp \<and> truthy sl) then f
         else if is_fin entry \<and> sl = entry then
           f\<lparr>rrRatio := (if tp = entry then ''1:NaN'' else ''1:Infinity'')\<rparr>
         else
           f\<lparr>rrRatio := ''1:'' @
              toFixed h 2 (fdiv (fabs (fsub tp entry)) (fabs (fsub entry sl)))\<rparr>)"
proof -
  define entry where "entry = parseFloat (entryPrice f)"
  define tp where "tp = parseFloat (takeProfit f)"
  define sl where "sl = parseFloat (stopLoss f)"
  have eq: "calculateRR h f =
     (if truthy entry \<and> truthy tp \<and> truthy sl then
        f\<lparr>rrRatio := ''1:'' @
           toFixed h 2 (fdiv (fabs (fsub tp entry)) (fabs (fsub entry sl)))\<rparr>
      else f)"
    by (simp add: calculateRR_def Let_def entry_def tp_def sl_def)
  have same: "toFixed h 2 (fdiv (fabs (fsub tp entry)) (fabs (fsub entry entry))) =
      (if tp = entry then ''NaN'' else ''Infinity'')"
    if fin: "is_fin entry" and t: "truthy tp"
  proof -
    obtain a where a: "entry = Fin a"
      using fin by (cases entry) simp_all
    obtain i :: int where i: "a = of_int i * pow2 (- 1074)"
      using a parseFloat_grid [of "entryPrice f" a] by (auto simp: entry_def)
    have risk: "fabs (fsub entry entry) = Fin 0"
      by (simp add: a fsub_same)
    show ?thesis
    proof (cases tp)
      case (Fin c)
      obtain j :: int where j: "c = of_int j * pow2 (- 1074)"
        using Fin parseFloat_grid [of "takeProfit f" c] by (auto simp: tp_def)
      show ?thesis
      proof (cases "c = a")
        case True
        then show ?thesis
          by (simp add: Fin a fsub_same)
      next
        case False
        have "fsub (Fin c) (Fin a) \<noteq> Fin 0"
          by (rule fsub_nonzero [OF j i False])
        then have "fdiv (fabs (fsub (Fin c) (Fin a))) (Fin 0) = PosInf"
          by (intro fdiv_abs_zero fsub_not_NaN)
        with False show ?thesis
          by (simp add: Fin a risk [unfolded a])
      qed
    next
      case NaN
      with t show ?thesis by simp
    next
      case PosInf
      then show ?thesis
        by (simp add: a fsub_def to_double_def signed_inf_def)
    next
      case NegInf
      then show ?thesis
        by (simp add: a fsub_def to_double_def signed_inf_def)
    qed
  qed
  show ?thesis
    unfolding Let_def entry_def [symmetric] tp_def [symmetric] sl_def [symmetric]
    using same by (auto simp: eq)
qed

end
